theory Spec2Isabelle
  imports Complex_Main "HOL-Library.AList"
begin

section \<open>Values\<close>

text \<open>
  A JSON value as Python holds it after decoding: \<open>None\<close>, \<open>bool\<close>, \<open>int\<close>, \<open>float\<close>,
  \<open>str\<close>, \<open>list\<close> and \<open>dict\<close>. Python strings are byte strings in UTF-8 here, so a
  string that has no UTF-8 encoding (a lone surrogate) is outside the model. A dict is
  an association list with distinct keys, read with \<open>map_of\<close>. The type of the floats is
  a parameter.
\<close>

datatype 'f jsonv =
    JNull
  | JBool bool
  | JInt int
  | JFloat 'f
  | JStr string
  | JList "'f jsonv list"
  | JObj "(string \<times> 'f jsonv) list"

text \<open>
  A Python float: a finite double, modelled by its exact rational value, or one of the
  values that are not finite. \<open>json.loads\<close> gives \<open>inf\<close> for a number too large for a
  double, such as \<open>1e400\<close>, and for the literal \<open>Infinity\<close>, and \<open>nan\<close> for the literal
  \<open>NaN\<close>.
\<close>

datatype pyfloat = Finite rat | PosInf | NegInf | NaN

text \<open>
  \<open>pyvalue\<close> is a value of the request side: the decoded request body, the validated
  model and the errors of validation. \<open>json\<close> is a value whose floats are all finite:
  what is sent to the downstream service and to the client, and the decoded body of a
  downstream response (a downstream body with a float that is not finite is outside the
  model).
\<close>

type_synonym pyvalue = "pyfloat jsonv"
type_synonym json = "rat jsonv"

fun is_JStr :: "'f jsonv \<Rightarrow> bool" where
  "is_JStr (JStr s) = True"
| "is_JStr j = False"

text \<open>
  Encoding a value as JSON the way Starlette's \<open>JSONResponse\<close> and the \<open>httpx\<close> client
  do it, with \<open>allow_nan=False\<close>: a float that is not finite makes the encoder raise
  \<open>ValueError\<close>, which is the result \<open>None\<close> here.
\<close>

fun encode :: "pyvalue \<Rightarrow> json option" where
  "encode JNull = Some JNull"
| "encode (JBool b) = Some (JBool b)"
| "encode (JInt i) = Some (JInt i)"
| "encode (JFloat f) = (case f of Finite x \<Rightarrow> Some (JFloat x) | _ \<Rightarrow> None)"
| "encode (JStr s) = Some (JStr s)"
| "encode (JList xs) = map_option JList (those (map encode xs))"
| "encode (JObj kvs) =
     map_option JObj (those (map (\<lambda>kv. map_option (Pair (fst kv)) (encode (snd kv))) kvs))"

section \<open>The downstream service\<close>

text \<open>
  What the handlers tell apart among the exceptions that are no \<open>HTTPException\<close>:
  \<open>httpx.TimeoutException\<close>, \<open>httpx.ConnectError\<close>, and any other \<open>Exception\<close>
  (another transport error, a body that does not decode, an attribute error, a value
  error). Each carries the text \<open>str(e)\<close> gives.
\<close>

datatype error =
    TimeoutException (str: string)
  | ConnectError (str: string)
  | Error (str: string)

text \<open>
  An exception in flight inside a handler: one of the above, or an \<open>HTTPException\<close>
  with its status code and its detail.
\<close>

datatype 'd exn =
    Failure error
  | HTTPException nat 'd

text \<open>
  The \<open>httpx\<close> response, as far as the handlers read it: \<open>status_code\<close>, \<open>text\<close>
  (here \<open>response_text\<close>),
  and what \<open>json()\<close> does on it, which is to return the decoded body or to raise a
  decoding error (with that error's text).
\<close>

record response =
  status_code :: nat
  response_text :: string
  decoded :: "string + json"

definition response_json :: "response \<Rightarrow> error + json" where
  "response_json r = (case decoded r of Inl m \<Rightarrow> Inl (Error m) | Inr j \<Rightarrow> Inr j)"

text \<open>
  One request to the downstream service: the URL, the JSON body of a POST, and the
  timeout of the client in seconds.
\<close>

datatype call =
    GET string nat
  | POST string json nat

text \<open>
  What a handler runs in: the setting \<open>KOTLIN_SERVICE_URL\<close>, the clock read by
  \<open>datetime.now().isoformat()\<close>, and the downstream service, which answers a call
  with a response or makes the client raise.

  The rest is what the libraries do and the model takes as given, whatever it is:
  \<^item> \<open>str_as_int\<close> and \<open>str_as_float\<close>: how pydantic reads a string as an \<open>int\<close> and as a
    \<open>float\<close> (\<open>None\<close> when it does not);
  \<^item> \<open>HTTPStatus_phrase\<close>: the phrase of a status code in \<open>http.HTTPStatus\<close> (\<open>None\<close> for
    a number that is no member);
  \<^item> \<open>nonfinite_error\<close>: the text of the \<open>ValueError\<close> that encoding a float that is not
    finite raises.
\<close>

record env =
  KOTLIN_SERVICE_URL :: string
  now :: string
  downstream :: "call \<Rightarrow> error + response"
  str_as_int :: "string \<Rightarrow> int option"
  str_as_float :: "string \<Rightarrow> pyfloat option"
  HTTPStatus_phrase :: "nat \<Rightarrow> string option"
  nonfinite_error :: string

section \<open>The request models of main.py\<close>

text \<open>
  A pydantic field declaration: its name, its annotated type with the constraints given
  in \<open>Field(...)\<close>, and its default (\<open>None\<close> for a required field, written \<open>...\<close> or
  left without a value in the source).

  \<^item> \<open>TStr None\<close> is \<open>str\<close>; \<open>TStr (Some alts)\<close> is \<open>str\<close> with a \<open>pattern\<close> of the shape
    \<open>^(a|b|c)$\<close>: an anchored alternation of literals, which a string matches exactly when
    it is one of the alternatives (pydantic's regex engine lets \<open>$\<close> match at the very
    end of the string only).
  \<^item> \<open>TInt lo hi\<close> is \<open>int\<close> with optional \<open>ge\<close> and \<open>le\<close>; \<open>TFloat lo hi\<close> likewise
    for \<open>float\<close>.
  \<^item> \<open>TListStr\<close> is \<open>List[str]\<close>.
\<close>

datatype ftype =
    TStr "string list option"
  | TBool
  | TInt "int option" "int option"
  | TFloat "rat option" "rat option"
  | TListStr

datatype field = Field (fname: string) (ftype: ftype) (fdefault: "pyvalue option")

definition ScreeningRequest :: "field list" where
  "ScreeningRequest =
   [ Field ''appKey'' (TStr None) None,
     Field ''appSecret'' (TStr None) None,
     Field ''isProduction'' TBool (Some (JBool False)),

     Field ''ma60Enabled'' TBool (Some (JBool False)),
     Field ''ma60Min'' (TInt (Some 0) (Some 200)) (Some (JInt 95)),
     Field ''ma60Max'' (TInt (Some 0) (Some 200)) (Some (JInt 105)),

     Field ''ma112Enabled'' TBool (Some (JBool True)),
     Field ''ma112Min'' (TInt (Some 0) (Some 200)) (Some (JInt 95)),
     Field ''ma112Max'' (TInt (Some 0) (Some 200)) (Some (JInt 105)),

     Field ''ma224Enabled'' TBool (Some (JBool False)),
     Field ''ma224Min'' (TInt (Some 0) (Some 200)) (Some (JInt 95)),
     Field ''ma224Max'' (TInt (Some 0) (Some 200)) (Some (JInt 105)),

     Field ''bbEnabled'' TBool (Some (JBool False)),
     Field ''bbPeriod'' (TInt (Some 5) (Some 100)) (Some (JInt 20)),
     Field ''bbMultiplier'' (TFloat (Some (1/2)) (Some 5)) (Some (JFloat (Finite 2))),
     Field ''bbPosition'' (TStr (Some [''all'', ''upper'', ''middle'', ''lower'']))
       (Some (JStr ''all'')),
     Field ''bbUpperBreak'' TBool (Some (JBool False)),
     Field ''bbLowerBreak'' TBool (Some (JBool False)),

     Field ''volumeEnabled'' TBool (Some (JBool False)),
     Field ''volumeMultiple'' (TFloat (Some (1/10)) (Some 10)) (Some (JFloat (Finite (3/2)))),

     Field ''priceChangeEnabled'' TBool (Some (JBool False)),
     Field ''priceChangeMin'' (TFloat (Some (-100)) (Some 100)) (Some (JFloat (Finite (-100)))),
     Field ''priceChangeMax'' (TFloat (Some (-100)) (Some 100)) (Some (JFloat (Finite 100))),

     Field ''excludeETF'' TBool (Some (JBool True)),
     Field ''excludeETN'' TBool (Some (JBool True)),
     Field ''excludeManagement'' TBool (Some (JBool False)),

     Field ''marketCapEnabled'' TBool (Some (JBool False)),
     Field ''marketCapMin'' (TInt (Some 0) None) (Some (JInt 0)),
     Field ''marketCapMax'' (TInt (Some 0) None) (Some (JInt 1000000000000)),

     Field ''perEnabled'' TBool (Some (JBool False)),
     Field ''perMin'' (TFloat (Some 0) None) (Some (JFloat (Finite 0))),
     Field ''perMax'' (TFloat (Some 0) None) (Some (JFloat (Finite 30))),

     Field ''maAlignment'' TBool (Some (JBool False)),

     Field ''targetCodes'' TListStr (Some (JList [])) ]"

definition CredentialsRequest :: "field list" where
  "CredentialsRequest =
   [ Field ''appKey'' (TStr None) None,
     Field ''appSecret'' (TStr None) None ]"

section \<open>Validation\<close>

text \<open>
  What pydantic does with one model, on the decoded request body (a JSON object; keys
  that are no field of the model are ignored).

  For every field in declaration order: an absent key takes the default, or is the error
  \<open>missing\<close> when the field is required; a present value is converted to the declared
  type and then checked against the constraints. All errors are collected; with no error
  the result is the model, a value for every field in declaration order, which is also
  what \<open>model_dump()\<close> returns.
\<close>

datatype err_type =
    missing
  | wrong_type
  | greater_than_equal
  | less_than_equal
  | string_pattern_mismatch

text \<open>
  One error of validation: where it is (the field, and the index of the element for an
  element of a list), what it is, and the input it is about, which is the value as it
  came and, for a missing field, the whole body.
\<close>

datatype error_details = ErrorDetails (loc: "pyvalue list") (etype: err_type) (input: pyvalue)

type_synonym payload = "(string \<times> pyvalue) list"
type_synonym model = "(string \<times> pyvalue) list"

subsection \<open>Conversion to the declared type\<close>

text \<open>
  Conversion is pydantic's, in its lax mode, on the Python values a decoded JSON body
  has. A \<open>str\<close> field takes a string only. A \<open>bool\<close> field also takes the integers and
  floats 0 and 1 and the strings of pydantic's table, whatever their case. An \<open>int\<close>
  field also takes a bool, a float without fraction that lies within 64 bits, and a
  string that reads as an integer. A \<open>float\<close> field also takes an integer, a bool and
  a string that reads as a float. A \<open>List[str]\<close> field takes a list.

  An integer becomes the nearest double, a tie going to the even one, as Python's
  \<open>float(i)\<close> gives it; an integer whose nearest double would be \<open>2^1024\<close> or beyond
  raises \<open>OverflowError\<close> and is not taken.
\<close>

fun bit_length :: "nat \<Rightarrow> nat" where
  "bit_length n = (if n = 0 then 0 else Suc (bit_length (n div 2)))"

declare bit_length.simps [simp del]

definition ascii_lower :: "char \<Rightarrow> char" where
  "ascii_lower c =
     (let n = (of_char c :: nat) in if 65 \<le> n \<and> n \<le> 90 then char_of (n + 32) else c)"

definition str_as_bool :: "string \<Rightarrow> bool option" where
  "str_as_bool s =
     (let l = map ascii_lower s in
      if l \<in> set [''0'', ''off'', ''f'', ''false'', ''n'', ''no''] then Some False
      else if l \<in> set [''1'', ''on'', ''t'', ''true'', ''y'', ''yes''] then Some True
      else None)"

definition int_as_bool :: "int \<Rightarrow> bool option" where
  "int_as_bool i = (if i = 0 then Some False else if i = 1 then Some True else None)"

definition float_as_int :: "pyfloat \<Rightarrow> int option" where
  "float_as_int f =
     (case f of
        Finite x \<Rightarrow>
          if of_int \<lfloor>x\<rfloor> = x \<and> - (2 ^ 63) < x \<and> x < 2 ^ 63 then Some \<lfloor>x\<rfloor> else None
      | _ \<Rightarrow> None)"

definition int_as_float :: "int \<Rightarrow> pyfloat option" where
  "int_as_float i =
     (let n = nat \<bar>i\<bar>;
          e = bit_length n - 53;
          q = n div 2 ^ e;
          r = n mod 2 ^ e;
          q' = (if 2 ^ e < 2 * r \<or> (2 ^ e = 2 * r \<and> odd q) then q + 1 else q);
          m = q' * 2 ^ e
      in if 2 ^ 1024 \<le> m then None
         else Some (Finite (of_int (if i < 0 then - int m else int m))))"

fun lax_bool :: "pyvalue \<Rightarrow> bool option" where
  "lax_bool (JBool b) = Some b"
| "lax_bool (JStr s) = str_as_bool s"
| "lax_bool (JInt i) = int_as_bool i"
| "lax_bool (JFloat f) = (case float_as_int f of Some i \<Rightarrow> int_as_bool i | None \<Rightarrow> None)"
| "lax_bool v = None"

fun lax_int :: "env \<Rightarrow> pyvalue \<Rightarrow> int option" where
  "lax_int env (JInt i) = Some i"
| "lax_int env (JBool b) = Some (if b then 1 else 0)"
| "lax_int env (JStr s) = str_as_int env s"
| "lax_int env (JFloat f) = float_as_int f"
| "lax_int env v = None"

fun lax_float :: "env \<Rightarrow> pyvalue \<Rightarrow> pyfloat option" where
  "lax_float env (JFloat f) = Some f"
| "lax_float env (JStr s) = str_as_float env s"
| "lax_float env (JInt i) = int_as_float i"
| "lax_float env (JBool b) = Some (Finite (if b then 1 else 0))"
| "lax_float env v = None"

subsection \<open>Constraints\<close>

text \<open>
  \<open>le\<close> is checked before \<open>ge\<close>. A float that is not a number satisfies neither.
\<close>

fun int_le :: "int option \<Rightarrow> int \<Rightarrow> bool" where
  "int_le None i = True"
| "int_le (Some b) i = (i \<le> b)"

fun int_ge :: "int option \<Rightarrow> int \<Rightarrow> bool" where
  "int_ge None i = True"
| "int_ge (Some b) i = (b \<le> i)"

fun float_le :: "rat option \<Rightarrow> pyfloat \<Rightarrow> bool" where
  "float_le None f = True"
| "float_le (Some b) (Finite x) = (x \<le> b)"
| "float_le (Some b) NegInf = True"
| "float_le (Some b) PosInf = False"
| "float_le (Some b) NaN = False"

fun float_ge :: "rat option \<Rightarrow> pyfloat \<Rightarrow> bool" where
  "float_ge None f = True"
| "float_ge (Some b) (Finite x) = (b \<le> x)"
| "float_ge (Some b) PosInf = True"
| "float_ge (Some b) NegInf = False"
| "float_ge (Some b) NaN = False"

definition check_int :: "int option \<Rightarrow> int option \<Rightarrow> int \<Rightarrow> err_type option" where
  "check_int lo hi i =
     (if \<not> int_le hi i then Some less_than_equal
      else if \<not> int_ge lo i then Some greater_than_equal
      else None)"

definition check_float :: "rat option \<Rightarrow> rat option \<Rightarrow> pyfloat \<Rightarrow> err_type option" where
  "check_float lo hi f =
     (if \<not> float_le hi f then Some less_than_equal
      else if \<not> float_ge lo f then Some greater_than_equal
      else None)"

subsection \<open>Fields and models\<close>

text \<open>
  The errors of the elements of a \<open>List[str]\<close> that are no strings, each at its index
  (counted from \<open>n\<close>).
\<close>

fun element_errors :: "nat \<Rightarrow> pyvalue list \<Rightarrow> error_details list" where
  "element_errors n [] = []"
| "element_errors n (x # xs) =
     (if is_JStr x then element_errors (Suc n) xs
      else ErrorDetails [JInt (int n)] wrong_type x # element_errors (Suc n) xs)"

text \<open>
  The value of a field, or its errors; the place of an error is given from the field on.
\<close>

fun validate_value :: "env \<Rightarrow> ftype \<Rightarrow> pyvalue \<Rightarrow> error_details list + pyvalue" where
  "validate_value env (TStr pat) v =
     (case v of
        JStr s \<Rightarrow>
          (case pat of
             None \<Rightarrow> Inr (JStr s)
           | Some alts \<Rightarrow>
               if s \<in> set alts then Inr (JStr s)
               else Inl [ErrorDetails [] string_pattern_mismatch v])
      | _ \<Rightarrow> Inl [ErrorDetails [] wrong_type v])"
| "validate_value env TBool v =
     (case lax_bool v of
        Some b \<Rightarrow> Inr (JBool b)
      | None \<Rightarrow> Inl [ErrorDetails [] wrong_type v])"
| "validate_value env (TInt lo hi) v =
     (case lax_int env v of
        Some i \<Rightarrow>
          (case check_int lo hi i of
             Some e \<Rightarrow> Inl [ErrorDetails [] e v]
           | None \<Rightarrow> Inr (JInt i))
      | None \<Rightarrow> Inl [ErrorDetails [] wrong_type v])"
| "validate_value env (TFloat lo hi) v =
     (case lax_float env v of
        Some f \<Rightarrow>
          (case check_float lo hi f of
             Some e \<Rightarrow> Inl [ErrorDetails [] e v]
           | None \<Rightarrow> Inr (JFloat f))
      | None \<Rightarrow> Inl [ErrorDetails [] wrong_type v])"
| "validate_value env TListStr v =
     (case v of
        JList xs \<Rightarrow>
          (case element_errors 0 xs of
             [] \<Rightarrow> Inr (JList xs)
           | e # es \<Rightarrow> Inl (e # es))
      | _ \<Rightarrow> Inl [ErrorDetails [] wrong_type v])"

definition at_field :: "string \<Rightarrow> error_details \<Rightarrow> error_details" where
  "at_field n e = ErrorDetails (JStr n # loc e) (etype e) (input e)"

definition validate_field :: "env \<Rightarrow> field \<Rightarrow> payload \<Rightarrow> error_details list + pyvalue" where
  "validate_field env f body =
     (case map_of body (fname f) of
        None \<Rightarrow>
          (case fdefault f of
             None \<Rightarrow> Inl [ErrorDetails [JStr (fname f)] missing (JObj body)]
           | Some d \<Rightarrow> Inr d)
      | Some v \<Rightarrow>
          (case validate_value env (ftype f) v of
             Inl es \<Rightarrow> Inl (map (at_field (fname f)) es)
           | Inr v' \<Rightarrow> Inr v'))"

fun validate_fields :: "env \<Rightarrow> field list \<Rightarrow> payload \<Rightarrow> error_details list \<times> model" where
  "validate_fields env [] body = ([], [])"
| "validate_fields env (f # fs) body =
     (case validate_fields env fs body of (es, vs) \<Rightarrow>
        (case validate_field env f body of
           Inl es' \<Rightarrow> (es' @ es, vs)
         | Inr v \<Rightarrow> (es, (fname f, v) # vs)))"

definition model_validate :: "env \<Rightarrow> field list \<Rightarrow> payload \<Rightarrow> error_details list + model" where
  "model_validate env fs body =
     (case validate_fields env fs body of
        ([], vs) \<Rightarrow> Inr vs
      | (e # es, vs) \<Rightarrow> Inl (e # es))"

section \<open>Python helpers\<close>

fun type_name :: "json \<Rightarrow> string" where
  "type_name JNull = ''NoneType''"
| "type_name (JBool b) = ''bool''"
| "type_name (JInt i) = ''int''"
| "type_name (JFloat x) = ''float''"
| "type_name (JStr s) = ''str''"
| "type_name (JList xs) = ''list''"
| "type_name (JObj kvs) = ''dict''"

text \<open>
  \<open>result.get(key, default)\<close> on a decoded body: the dict method, and an
  \<open>AttributeError\<close> on anything that is no dict.
\<close>

definition dict_get :: "json \<Rightarrow> string \<Rightarrow> json \<Rightarrow> error + json" where
  "dict_get j k d =
     (case j of
        JObj kvs \<Rightarrow> Inr (case map_of kvs k of Some v \<Rightarrow> v | None \<Rightarrow> d)
      | _ \<Rightarrow> Inl (Error ([CHR 0x27] @ type_name j @ [CHR 0x27] @ '' object has no attribute ''
                         @ [CHR 0x27] @ ''get'' @ [CHR 0x27])))"

text \<open>An attribute of a validated model that is declared \<open>str\<close>.\<close>

definition str_attr :: "model \<Rightarrow> string \<Rightarrow> string" where
  "str_attr m k = (case map_of m k of Some (JStr s) \<Rightarrow> s | _ \<Rightarrow> [])"

fun show_nat :: "nat \<Rightarrow> string" where
  "show_nat n =
     (if n < 10 then [char_of (48 + n)]
      else show_nat (n div 10) @ [char_of (48 + n mod 10)])"

text \<open>
  \<open>str(e)\<close> of an exception caught by \<open>except Exception as e\<close>; for an
  \<open>HTTPException\<close> whose detail is a string, Starlette gives status and detail.
\<close>

fun exn_str :: "string exn \<Rightarrow> string" where
  "exn_str (Failure e) = str e"
| "exn_str (HTTPException c d) = show_nat c @ '': '' @ d"

text \<open>
  \<open>HTTPException(status_code=..., detail=...)\<close> with a detail that may be \<open>None\<close>:
  Starlette then takes the phrase of the status code in \<open>http.HTTPStatus\<close> as the
  detail, and looking up a number that is no member raises \<open>ValueError\<close>.
\<close>

definition make_HTTPException :: "env \<Rightarrow> nat \<Rightarrow> json \<Rightarrow> error + json exn" where
  "make_HTTPException env sc detail =
     (if detail = JNull then
        (case HTTPStatus_phrase env sc of
           Some phrase \<Rightarrow> Inr (HTTPException sc (JStr phrase))
         | None \<Rightarrow> Inl (Error (show_nat sc @ '' is not a valid HTTPStatus'')))
      else Inr (HTTPException sc detail))"

text \<open>
  \<open>client.post(url, json=...)\<close> with a Python value as the body: the client encodes
  the body before anything is sent, and raises when it cannot. The result is what the
  client returns or raises, and the calls that reached the downstream service.
\<close>

definition client_post ::
  "env \<Rightarrow> string \<Rightarrow> pyvalue \<Rightarrow> nat \<Rightarrow> (error + response) \<times> call list" where
  "client_post env url body timeout =
     (case encode body of
        None \<Rightarrow> (Inl (Error (nonfinite_error env)), [])
      | Some j \<Rightarrow> (downstream env (POST url j timeout), [POST url j timeout]))"

section \<open>Messages\<close>

text \<open>The Korean string literals of main.py, as their UTF-8 bytes.\<close>

definition SCREEN_TIMEOUT_DETAIL :: string where
  \<comment> \<open>main.py line 213: Screening request timed out. Please try again shortly.\<close>
  "SCREEN_TIMEOUT_DETAIL = map char_of
       [0xEC, 0x8A, 0xA4, 0xED, 0x81, 0xAC, 0xEB, 0xA6, 0xAC, 0xEB, 0x8B, 0x9D, 0x20, 0xEC,
        0x9A, 0x94, 0xEC, 0xB2, 0xAD, 0x20, 0xEC, 0x8B, 0x9C, 0xEA, 0xB0, 0x84, 0x20, 0xEC,
        0xB4, 0x88, 0xEA, 0xB3, 0xBC, 0x2E, 0x20, 0xEC, 0x9E, 0xA0, 0xEC, 0x8B, 0x9C, 0x20,
        0xED, 0x9B, 0x84, 0x20, 0xEB, 0x8B, 0xA4, 0xEC, 0x8B, 0x9C, 0x20, 0xEC, 0x8B, 0x9C,
        0xEB, 0x8F, 0x84, 0xED, 0x95, 0xB4, 0xEC, 0xA3, 0xBC, 0xEC, 0x84, 0xB8, 0xEC, 0x9A,
        0x94, 0x2E :: nat]"

definition SCREEN_CONNECT_DETAIL :: string where
  \<comment> \<open>main.py line 219: Cannot connect to the screening service.\<close>
  "SCREEN_CONNECT_DETAIL = map char_of
       [0xEC, 0x8A, 0xA4, 0xED, 0x81, 0xAC, 0xEB, 0xA6, 0xAC, 0xEB, 0x8B, 0x9D, 0x20, 0xEC,
        0x84, 0x9C, 0xEB, 0xB9, 0x84, 0xEC, 0x8A, 0xA4, 0xEC, 0x97, 0x90, 0x20, 0xEC, 0x97,
        0xB0, 0xEA, 0xB2, 0xB0, 0xED, 0x95, 0xA0, 0x20, 0xEC, 0x88, 0x98, 0x20, 0xEC, 0x97,
        0x86, 0xEC, 0x8A, 0xB5, 0xEB, 0x8B, 0x88, 0xEB, 0x8B, 0xA4, 0x2E :: nat]"

definition SCREEN_ERROR_PREFIX :: string where
  \<comment> \<open>main.py line 227: Error during screening: \<close>
  "SCREEN_ERROR_PREFIX = map char_of
       [0xEC, 0x8A, 0xA4, 0xED, 0x81, 0xAC, 0xEB, 0xA6, 0xAC, 0xEB, 0x8B, 0x9D, 0x20, 0xEC,
        0xA4, 0x91, 0x20, 0xEC, 0x98, 0xA4, 0xEB, 0xA5, 0x98, 0x20, 0xEB, 0xB0, 0x9C, 0xEC,
        0x83, 0x9D, 0x3A, 0x20 :: nat]"

definition CREDENTIALS_OK_MESSAGE :: string where
  \<comment> \<open>main.py line 252: Authentication succeeded\<close>
  "CREDENTIALS_OK_MESSAGE = map char_of
       [0xEC, 0x9D, 0xB8, 0xEC, 0xA6, 0x9D, 0x20, 0xEC, 0x84, 0xB1, 0xEA, 0xB3, 0xB5 :: nat]"

definition CREDENTIALS_FAILED_MESSAGE :: string where
  \<comment> \<open>main.py line 255: Authentication failed\<close>
  "CREDENTIALS_FAILED_MESSAGE = map char_of
       [0xEC, 0x9D, 0xB8, 0xEC, 0xA6, 0x9D, 0x20, 0xEC, 0x8B, 0xA4, 0xED, 0x8C, 0xA8 :: nat]"

definition CREDENTIALS_ERROR_PREFIX :: string where
  \<comment> \<open>main.py line 261: Error during credential validation: \<close>
  "CREDENTIALS_ERROR_PREFIX = map char_of
       [0xEC, 0x9D, 0xB8, 0xEC, 0xA6, 0x9D, 0x20, 0xEA, 0xB2, 0x80, 0xEC, 0xA6, 0x9D, 0x20,
        0xEC, 0xA4, 0x91, 0x20, 0xEC, 0x98, 0xA4, 0xEB, 0xA5, 0x98, 0x20, 0xEB, 0xB0, 0x9C,
        0xEC, 0x83, 0x9D, 0x3A, 0x20 :: nat]"

definition STOCK_CODES_FAILED_DETAIL :: string where
  \<comment> \<open>main.py line 277: Stock code lookup failed\<close>
  "STOCK_CODES_FAILED_DETAIL = map char_of
       [0xEC, 0xA2, 0x85, 0xEB, 0xAA, 0xA9, 0x20, 0xEC, 0xBD, 0x94, 0xEB, 0x93, 0x9C, 0x20,
        0xEC, 0xA1, 0xB0, 0xED, 0x9A, 0x8C, 0x20, 0xEC, 0x8B, 0xA4, 0xED, 0x8C, 0xA8 :: nat]"

definition STOCK_CODES_ERROR_PREFIX :: string where
  \<comment> \<open>main.py line 286: Error during stock code lookup: \<close>
  "STOCK_CODES_ERROR_PREFIX = map char_of
       [0xEC, 0xA2, 0x85, 0xEB, 0xAA, 0xA9, 0x20, 0xEC, 0xBD, 0x94, 0xEB, 0x93, 0x9C, 0x20,
        0xEC, 0xA1, 0xB0, 0xED, 0x9A, 0x8C, 0x20, 0xEC, 0xA4, 0x91, 0x20, 0xEC, 0x98, 0xA4,
        0xEB, 0xA5, 0x98, 0x20, 0xEB, 0xB0, 0x9C, 0xEC, 0x83, 0x9D, 0x3A, 0x20 :: nat]"

section \<open>Handlers\<close>

text \<open>
  Each handler gives what it returns or raises, and the calls it made to the
  downstream service. Logging is left out, except where evaluating the log message
  can raise.
\<close>

definition health_check :: "env \<Rightarrow> (json exn + json) \<times> call list" where
  "health_check env =
     (let c = GET (KOTLIN_SERVICE_URL env @ ''/health'') 5;
          kotlin_healthy =
            (case downstream env c of
               Inr response \<Rightarrow> status_code response = 200
             | Inl e \<Rightarrow> False)
      in (Inr (JObj
            [(''status'', JStr (if kotlin_healthy then ''healthy'' else ''degraded'')),
             (''services'', JObj
                [(''gateway'', JStr ''healthy''),
                 (''kotlin_screener'',
                    JStr (if kotlin_healthy then ''healthy'' else ''unhealthy''))]),
             (''timestamp'', JStr (now env))]),
          [c]))"

definition screen_stocks :: "env \<Rightarrow> model \<Rightarrow> (json exn + json) \<times> call list" where
  "screen_stocks env request =
     (case client_post env (KOTLIN_SERVICE_URL env @ ''/api/v1/screen'') (JObj request) 300 of
        (reply, calls) \<Rightarrow>
          (let attempt =
             (case reply of
                Inl e \<Rightarrow> Inl (Failure e)
              | Inr response \<Rightarrow>
                  if status_code response \<noteq> 200 then
                    (case (if response_text response \<noteq> [] then response_json response
                           else Inr (JObj [(''error'', JStr ''Unknown error'')])) of
                       Inl e \<Rightarrow> Inl (Failure e)
                     | Inr error_detail \<Rightarrow>
                         (case make_HTTPException env (status_code response) error_detail of
                            Inl e \<Rightarrow> Inl (Failure e)
                          | Inr exc \<Rightarrow> Inl exc))
                  else
                    (case response_json response of
                       Inl e \<Rightarrow> Inl (Failure e)
                     | Inr result \<Rightarrow>
                         (case dict_get result ''matchedCount'' (JInt 0) of
                            Inl e \<Rightarrow> Inl (Failure e)
                          | Inr n \<Rightarrow> Inr result)))
           in (case attempt of
                 Inl (Failure (TimeoutException m)) \<Rightarrow>
                   Inl (HTTPException 504 (JStr SCREEN_TIMEOUT_DETAIL))
               | Inl (Failure (ConnectError m)) \<Rightarrow>
                   Inl (HTTPException 503 (JStr SCREEN_CONNECT_DETAIL))
               | Inl (HTTPException sc d) \<Rightarrow> Inl (HTTPException sc d)
               | Inl (Failure (Error m)) \<Rightarrow>
                   Inl (HTTPException 500 (JStr (SCREEN_ERROR_PREFIX @ m)))
               | Inr result \<Rightarrow> Inr result,
               calls)))"

text \<open>
  The body of the validate-credentials call is made of the two \<open>str\<close> attributes of the
  request, which always encode.
\<close>

definition validate_credentials :: "env \<Rightarrow> model \<Rightarrow> (json exn + json) \<times> call list" where
  "validate_credentials env request =
     (let c = POST (KOTLIN_SERVICE_URL env @ ''/api/v1/validate-credentials'')
                (JObj [(''appKey'', JStr (str_attr request ''appKey'')),
                       (''appSecret'', JStr (str_attr request ''appSecret''))]) 10;
          attempt =
            (case downstream env c of
               Inl e \<Rightarrow> Inl e
             | Inr response \<Rightarrow>
                 (case response_json response of
                    Inl e \<Rightarrow> Inl e
                  | Inr result \<Rightarrow>
                      if status_code response = 200 then
                        Inr (JObj [(''valid'', JBool True),
                                   (''message'', JStr CREDENTIALS_OK_MESSAGE)])
                      else
                        (case dict_get result ''message'' (JStr CREDENTIALS_FAILED_MESSAGE) of
                           Inl e \<Rightarrow> Inl e
                         | Inr m \<Rightarrow> Inr (JObj [(''valid'', JBool False), (''message'', m)]))))
      in (case attempt of
            Inl e \<Rightarrow> Inl (HTTPException 500 (JStr (CREDENTIALS_ERROR_PREFIX @ str e)))
          | Inr result \<Rightarrow> Inr result,
          [c]))"

definition get_stock_codes :: "env \<Rightarrow> (json exn + json) \<times> call list" where
  "get_stock_codes env =
     (let c = GET (KOTLIN_SERVICE_URL env @ ''/api/v1/stock-codes'') 5;
          attempt =
            (case downstream env c of
               Inl e \<Rightarrow> Inl (Failure e)
             | Inr response \<Rightarrow>
                 if status_code response \<noteq> 200 then
                   Inl (HTTPException (status_code response) STOCK_CODES_FAILED_DETAIL)
                 else
                   (case response_json response of
                      Inl e \<Rightarrow> Inl (Failure e)
                    | Inr result \<Rightarrow> Inr result))
      in (case attempt of
            Inl e \<Rightarrow> Inl (HTTPException 500 (JStr (STOCK_CODES_ERROR_PREFIX @ exn_str e)))
          | Inr result \<Rightarrow> Inr result,
          [c]))"

section \<open>Error handlers and routes\<close>

datatype http_response = JSONResponse (status: nat) (content: json)

definition http_exception_handler :: "env \<Rightarrow> nat \<Rightarrow> json \<Rightarrow> http_response" where
  "http_exception_handler env sc detail =
     JSONResponse sc (JObj [(''error'', detail), (''timestamp'', JStr (now env))])"

definition general_exception_handler :: "env \<Rightarrow> error \<Rightarrow> http_response" where
  "general_exception_handler env exc =
     JSONResponse 500
       (JObj [(''error'', JStr ''Internal server error''),
              (''detail'', JStr (str exc)),
              (''timestamp'', JStr (now env))])"

text \<open>
  main.py registers no handler for a request that fails validation, so FastAPI's own
  answers it: status 422 and a body \<open>{"detail": [...]}\<close> with one entry for each error.
  An entry has the place of the error as \<open>loc\<close>, which starts with \<open>"body"\<close>, and
  echoes the input of the error as \<open>input\<close>; its other keys (the type of the error, the
  message, the declared bound) are strings and numbers fixed by the declaration and are
  left out. Making the \<open>JSONResponse\<close> encodes the body, so the handler raises when an
  echoed input has a float that is not finite.
\<close>

definition error_entry :: "error_details \<Rightarrow> pyvalue" where
  "error_entry e =
     JObj [(''loc'', JList (JStr ''body'' # loc e)), (''input'', input e)]"

definition request_validation_exception_handler ::
  "env \<Rightarrow> error_details list \<Rightarrow> error + http_response" where
  "request_validation_exception_handler env errs =
     (case encode (JObj [(''detail'', JList (map error_entry errs))]) of
        Some c \<Rightarrow> Inr (JSONResponse 422 c)
      | None \<Rightarrow> Inl (Error (nonfinite_error env)))"

text \<open>
  What the application answers for the outcome of a handler: the returned value with
  status 200, or the response of the exception handler registered for the exception.
\<close>

definition respond :: "env \<Rightarrow> json exn + json \<Rightarrow> http_response" where
  "respond env outcome =
     (case outcome of
        Inr result \<Rightarrow> JSONResponse 200 result
      | Inl (HTTPException sc detail) \<Rightarrow> http_exception_handler env sc detail
      | Inl (Failure exc) \<Rightarrow> general_exception_handler env exc)"

text \<open>
  What the application answers to a body that fails validation: the response of
  FastAPI's handler, or, when that handler raises, the response of the handler that
  main.py registers for \<open>Exception\<close>.
\<close>

definition validation_failed :: "env \<Rightarrow> error_details list \<Rightarrow> http_response" where
  "validation_failed env errs =
     (case request_validation_exception_handler env errs of
        Inr r \<Rightarrow> r
      | Inl exc \<Rightarrow> general_exception_handler env exc)"

text \<open>
  The routes. A route with a body parameter validates the body against its model first
  and calls the handler only with a valid model.
\<close>

definition route_health :: "env \<Rightarrow> http_response \<times> call list" where
  "route_health env = (case health_check env of (r, cs) \<Rightarrow> (respond env r, cs))"

definition route_screen :: "env \<Rightarrow> payload \<Rightarrow> http_response \<times> call list" where
  "route_screen env body =
     (case model_validate env ScreeningRequest body of
        Inl errs \<Rightarrow> (validation_failed env errs, [])
      | Inr request \<Rightarrow> (case screen_stocks env request of (r, cs) \<Rightarrow> (respond env r, cs)))"

definition route_validate_credentials :: "env \<Rightarrow> payload \<Rightarrow> http_response \<times> call list" where
  "route_validate_credentials env body =
     (case model_validate env CredentialsRequest body of
        Inl errs \<Rightarrow> (validation_failed env errs, [])
      | Inr request \<Rightarrow>
          (case validate_credentials env request of (r, cs) \<Rightarrow> (respond env r, cs)))"

definition route_stock_codes :: "env \<Rightarrow> http_response \<times> call list" where
  "route_stock_codes env = (case get_stock_codes env of (r, cs) \<Rightarrow> (respond env r, cs))"

section \<open>Notions of the specification\<close>

text \<open>
  A value outside the declared bound of a field, in the specification's words: a value
  that, read as the declared type, is a number below \<open>ge\<close> or above \<open>le\<close>, or a string
  that is none of the alternatives of the pattern.
\<close>

fun float_below :: "rat option \<Rightarrow> pyfloat \<Rightarrow> bool" where
  "float_below (Some b) (Finite x) = (x < b)"
| "float_below (Some b) NegInf = True"
| "float_below lo f = False"

fun float_above :: "rat option \<Rightarrow> pyfloat \<Rightarrow> bool" where
  "float_above (Some b) (Finite x) = (b < x)"
| "float_above (Some b) PosInf = True"
| "float_above hi f = False"

fun outside_declared_bound :: "env \<Rightarrow> ftype \<Rightarrow> pyvalue \<Rightarrow> bool" where
  "outside_declared_bound env (TInt lo hi) v =
     (case lax_int env v of
        Some i \<Rightarrow> (case lo of Some b \<Rightarrow> i < b | None \<Rightarrow> False) \<or>
                  (case hi of Some b \<Rightarrow> b < i | None \<Rightarrow> False)
      | None \<Rightarrow> False)"
| "outside_declared_bound env (TFloat lo hi) v =
     (case lax_float env v of
        Some f \<Rightarrow> float_below lo f \<or> float_above hi f
      | None \<Rightarrow> False)"
| "outside_declared_bound env (TStr (Some alts)) (JStr s) = (s \<notin> set alts)"
| "outside_declared_bound env t v = False"

text \<open>
  The filter families of the specification: the enable flag of each, and its threshold
  fields.
\<close>

definition families :: "(string \<times> string list) list" where
  "families =
   [ (''ma60Enabled'', [''ma60Min'', ''ma60Max'']),
     (''ma112Enabled'', [''ma112Min'', ''ma112Max'']),
     (''ma224Enabled'', [''ma224Min'', ''ma224Max'']),
     (''bbEnabled'', [''bbPeriod'', ''bbMultiplier'', ''bbPosition'']),
     (''volumeEnabled'', [''volumeMultiple'']),
     (''priceChangeEnabled'', [''priceChangeMin'', ''priceChangeMax'']),
     (''marketCapEnabled'', [''marketCapMin'', ''marketCapMax'']),
     (''perEnabled'', [''perMin'', ''perMax'']) ]"

text \<open>A response names a field when an entry of its \<open>detail\<close> list has the field as \<open>loc\<close>.\<close>

definition names_field :: "http_response \<Rightarrow> string \<Rightarrow> bool" where
  "names_field r n =
     (case content r of
        JObj kvs \<Rightarrow>
          (case map_of kvs ''detail'' of
             Some (JList entries) \<Rightarrow>
               list_ex (\<lambda>entry. case entry of
                           JObj ekvs \<Rightarrow> map_of ekvs ''loc'' = Some (JList [JStr ''body'', JStr n])
                         | _ \<Rightarrow> False) entries
           | _ \<Rightarrow> False)
      | _ \<Rightarrow> False)"

text \<open>A JSON object has a field.\<close>

definition has_field :: "json \<Rightarrow> string \<Rightarrow> bool" where
  "has_field j k = (case j of JObj kvs \<Rightarrow> map_of kvs k \<noteq> None | _ \<Rightarrow> False)"

section \<open>Example inputs\<close>

text \<open>
  Conversions of strings for the examples, which read a plain decimal numeral, with a
  minus sign or without, and for a float with a fraction after a point or without;
  pydantic's own read these the same way, and other forms too.
\<close>

fun digits_value :: "nat \<Rightarrow> string \<Rightarrow> nat option" where
  "digits_value acc [] = Some acc"
| "digits_value acc (c # cs) =
     (let n = (of_char c :: nat) in
      if 48 \<le> n \<and> n \<le> 57 then digits_value (10 * acc + (n - 48)) cs else None)"

definition plain_int :: "string \<Rightarrow> int option" where
  "plain_int s =
     (case s of
        [] \<Rightarrow> None
      | c # cs \<Rightarrow>
          if c = CHR ''-'' then (if cs = [] then None
                                else map_option (\<lambda>n. - int n) (digits_value 0 cs))
          else map_option int (digits_value 0 s))"

definition plain_float :: "string \<Rightarrow> pyfloat option" where
  "plain_float s =
     (let negative = (s \<noteq> [] \<and> hd s = CHR ''-'');
          t = (if negative then tl s else s);
          whole = takeWhile (\<lambda>c. c \<noteq> CHR ''.'') t;
          rest = dropWhile (\<lambda>c. c \<noteq> CHR ''.'') t;
          fraction = (if rest = [] then [] else tl rest)
      in if whole = [] \<or> (rest \<noteq> [] \<and> fraction = []) then None
         else (case (digits_value 0 whole, digits_value 0 fraction) of
                 (Some w, Some f) \<Rightarrow>
                   (let x = (of_nat w + of_nat f / 10 ^ length fraction :: rat)
                    in Some (Finite (if negative then - x else x)))
               | _ \<Rightarrow> None))"

definition example_phrases :: "(nat \<times> string) list" where
  "example_phrases =
   [ (400, ''Bad Request''), (401, ''Unauthorized''), (404, ''Not Found''),
     (500, ''Internal Server Error''), (502, ''Bad Gateway''),
     (503, ''Service Unavailable''), (504, ''Gateway Timeout'') ]"

definition example_env :: "(call \<Rightarrow> error + response) \<Rightarrow> env" where
  "example_env d =
     \<lparr>KOTLIN_SERVICE_URL = ''http://kotlin-screener:8080'',
      now = ''2024-01-01T00:00:00'',
      downstream = d,
      str_as_int = plain_int,
      str_as_float = plain_float,
      HTTPStatus_phrase = map_of example_phrases,
      nonfinite_error = ''Out of range float values are not JSON compliant''\<rparr>"

definition example_credentials :: payload where
  "example_credentials = [(''appKey'', JStr ''key''), (''appSecret'', JStr ''secret'')]"


section \<open>Encoding, and the errors of validation\<close>

lemma those_map_None_iff:
  "those (map f xs) = None \<longleftrightarrow> (\<exists>x \<in> set xs. f x = None)"
  by (induction xs) (auto split: option.splits)

lemma those_map_Some_iff:
  "those (map f xs) = Some ys \<longleftrightarrow> list_all2 (\<lambda>x y. f x = Some y) xs ys"
proof (induction xs arbitrary: ys)
  case Nil
  then show ?case by auto
next
  case (Cons x xs)
  then show ?case by (cases ys) (auto split: option.splits)
qed

lemma encode_JList_None_iff:
  "encode (JList xs) = None \<longleftrightarrow> (\<exists>x \<in> set xs. encode x = None)"
  by (simp add: those_map_None_iff)

lemma encode_JObj_None_iff:
  "encode (JObj kvs) = None \<longleftrightarrow> (\<exists>kv \<in> set kvs. encode (snd kv) = None)"
  by (simp add: those_map_None_iff)

lemma encode_lookup:
  assumes "encode (JObj kvs) \<noteq> None" and "map_of kvs k = Some v"
  shows "encode v \<noteq> None"
proof -
  from assms(2) have "(k, v) \<in> set kvs" by (rule map_of_SomeD)
  with assms(1) show ?thesis unfolding encode_JObj_None_iff by force
qed

lemma encode_element:
  "encode (JList xs) \<noteq> None \<Longrightarrow> x \<in> set xs \<Longrightarrow> encode x \<noteq> None"
  by (meson encode_JList_None_iff)

lemma element_errors_sound:
  "e \<in> set (element_errors n xs) \<Longrightarrow>
     input e \<in> set xs \<and> (\<exists>k. loc e = [JInt k])"
  by (induction n xs rule: element_errors.induct) (auto split: if_splits)

lemma validate_value_errors:
  assumes "validate_value env t v = Inl es" and "e \<in> set es"
  shows "(input e = v \<and> loc e = [])
       \<or> (\<exists>xs k. v = JList xs \<and> input e \<in> set xs \<and> loc e = [JInt k])"
proof (cases t)
  case TListStr
  show ?thesis
  proof (cases v)
    case (JList xs)
    with assms TListStr have "e \<in> set (element_errors 0 xs)"
      by (auto split: list.splits)
    from element_errors_sound[OF this] JList show ?thesis by auto
  qed (use assms TListStr in auto)
qed (use assms in \<open>auto split: jsonv.splits option.splits if_splits\<close>)

lemma validate_value_errors_encode:
  assumes "validate_value env t v = Inl es" and "e \<in> set es" and "encode v \<noteq> None"
  shows "encode (input e) \<noteq> None \<and> encode (JList (loc e)) \<noteq> None"
proof -
  from validate_value_errors[OF assms(1,2)]
  consider "input e = v" "loc e = []"
    | xs k where "v = JList xs" "input e \<in> set xs" "loc e = [JInt k]"
    by blast
  then show ?thesis
  proof cases
    case 1
    with assms(3) show ?thesis by simp
  next
    case 2
    from assms(3) 2(1,2) have "encode (input e) \<noteq> None"
      using encode_element by blast
    with 2(3) show ?thesis by simp
  qed
qed

lemma validate_value_nonempty:
  "validate_value env t v = Inl es \<Longrightarrow> es \<noteq> []"
  by (cases t) (auto split: jsonv.splits option.splits if_splits list.splits)

lemma validate_field_nonempty:
  "validate_field env f body = Inl es \<Longrightarrow> es \<noteq> []"
  by (auto simp: validate_field_def split: option.splits sum.splits
      dest: validate_value_nonempty)

lemma validate_field_errors_encode:
  assumes "validate_field env f body = Inl es" and "e \<in> set es"
    and "encode (JObj body) \<noteq> None"
  shows "encode (input e) \<noteq> None \<and> encode (JList (loc e)) \<noteq> None"
proof (cases "map_of body (fname f)")
  case None
  with assms show ?thesis
    by (auto simp: validate_field_def simp del: encode.simps(6,7) simp: encode_JList_None_iff
        split: option.splits)
next
  case (Some v)
  with assms(1) obtain es' where es': "validate_value env (ftype f) v = Inl es'"
    and es: "es = map (at_field (fname f)) es'"
    by (auto simp: validate_field_def split: sum.splits)
  from assms(2) es obtain e' where e': "e' \<in> set es'" "e = at_field (fname f) e'"
    by auto
  have "encode v \<noteq> None" using assms(3) Some by (rule encode_lookup)
  from validate_value_errors_encode[OF es' e'(1) this] e'(2) show ?thesis
    by (auto simp: at_field_def simp del: encode.simps(6,7) simp: encode_JList_None_iff)
qed

lemma validate_fields_collects:
  "f \<in> set fs \<Longrightarrow> validate_field env f body = Inl es \<Longrightarrow>
     set es \<subseteq> set (fst (validate_fields env fs body))"
  by (induction fs) (auto split: prod.splits sum.splits)

lemma validate_fields_errors_from:
  "e \<in> set (fst (validate_fields env fs body)) \<Longrightarrow>
     \<exists>f \<in> set fs. \<exists>es. validate_field env f body = Inl es \<and> e \<in> set es"
  by (induction fs arbitrary: e) (auto split: prod.splits sum.splits)

lemma model_validate_Inl:
  "fst (validate_fields env fs body) \<noteq> [] \<Longrightarrow>
     model_validate env fs body = Inl (fst (validate_fields env fs body))"
  by (cases "validate_fields env fs body") (auto simp: model_validate_def split: list.splits)

lemma model_validate_Inl_iff:
  "model_validate env fs body = Inl errs \<longleftrightarrow>
     errs = fst (validate_fields env fs body) \<and> errs \<noteq> []"
  by (cases "validate_fields env fs body") (auto simp: model_validate_def split: list.splits)

lemma field_error_rejects:
  assumes "f \<in> set fs" and "validate_field env f body = Inl es"
  shows "model_validate env fs body = Inl (fst (validate_fields env fs body))"
    and "set es \<subseteq> set (fst (validate_fields env fs body))"
proof -
  show sub: "set es \<subseteq> set (fst (validate_fields env fs body))"
    using assms by (rule validate_fields_collects)
  have "es \<noteq> []" using assms(2) by (rule validate_field_nonempty)
  with sub have "fst (validate_fields env fs body) \<noteq> []" by auto
  then show "model_validate env fs body = Inl (fst (validate_fields env fs body))"
    by (rule model_validate_Inl)
qed

lemma errors_encode:
  assumes "model_validate env fs body = Inl errs" and "encode (JObj body) \<noteq> None"
    and "e \<in> set errs"
  shows "encode (input e) \<noteq> None \<and> encode (JList (loc e)) \<noteq> None"
proof -
  from assms(1,3) have "e \<in> set (fst (validate_fields env fs body))"
    by (simp add: model_validate_Inl_iff)
  then obtain f es where "validate_field env f body = Inl es" "e \<in> set es"
    using validate_fields_errors_from by blast
  then show ?thesis using assms(2) by (rule validate_field_errors_encode)
qed

lemma encode_error_entry_None_iff:
  "encode (error_entry e) = None \<longleftrightarrow>
     encode (JList (loc e)) = None \<or> encode (input e) = None"
  by (simp add: error_entry_def encode_JObj_None_iff encode_JList_None_iff
      del: encode.simps(6,7))

lemma encode_detail:
  "encode (JObj [(''detail'', JList (map error_entry errs))]) =
     map_option (\<lambda>entries. JObj [(''detail'', JList entries)])
       (those (map (\<lambda>e. encode (error_entry e)) errs))"
  by (simp add: comp_def option.map_comp split: option.splits)

lemma validation_failed_422:
  assumes "\<And>e. e \<in> set errs \<Longrightarrow> encode (input e) \<noteq> None \<and> encode (JList (loc e)) \<noteq> None"
  shows "\<exists>entries. validation_failed env errs = JSONResponse 422 (JObj [(''detail'', JList entries)])
           \<and> list_all2 (\<lambda>e j. encode (error_entry e) = Some j) errs entries"
proof -
  have "those (map (\<lambda>e. encode (error_entry e)) errs) \<noteq> None"
    using assms by (auto simp: those_map_None_iff encode_error_entry_None_iff)
  then obtain entries where en: "those (map (\<lambda>e. encode (error_entry e)) errs) = Some entries"
    by blast
  then have "list_all2 (\<lambda>e j. encode (error_entry e) = Some j) errs entries"
    by (simp add: those_map_Some_iff)
  moreover have "validation_failed env errs = JSONResponse 422 (JObj [(''detail'', JList entries)])"
    unfolding validation_failed_def request_validation_exception_handler_def encode_detail en
    by simp
  ultimately show ?thesis by blast
qed

lemma validation_failed_500:
  assumes "e \<in> set errs" and "encode (input e) = None"
  shows "validation_failed env errs = general_exception_handler env (Error (nonfinite_error env))"
proof -
  have "those (map (\<lambda>e. encode (error_entry e)) errs) = None"
    using assms by (auto simp: those_map_None_iff encode_error_entry_None_iff)
  then show ?thesis
    unfolding validation_failed_def request_validation_exception_handler_def encode_detail
    by simp
qed

lemma validation_failed_cases:
  "(\<exists>entries. validation_failed env errs = JSONResponse 422 (JObj [(''detail'', JList entries)]))
   \<or> validation_failed env errs = general_exception_handler env (Error (nonfinite_error env))"
  unfolding validation_failed_def request_validation_exception_handler_def encode_detail
  by (cases "those (map (\<lambda>e. encode (error_entry e)) errs)") auto

lemma entry_names_field:
  assumes "list_all2 (\<lambda>e j. encode (error_entry e) = Some j) errs entries"
    and "e \<in> set errs" and "loc e = [JStr n]"
  shows "names_field (JSONResponse 422 (JObj [(''detail'', JList entries)])) n"
proof -
  from assms(2) obtain i where i: "i < length errs" "errs ! i = e"
    by (auto simp: in_set_conv_nth)
  from assms(1) have len: "length errs = length entries"
    and nth: "\<And>k. k < length errs \<Longrightarrow> encode (error_entry (errs ! k)) = Some (entries ! k)"
    by (auto simp: list_all2_conv_all_nth)
  define j where "j = entries ! i"
  have j: "j \<in> set entries" "encode (error_entry e) = Some j"
    using i len nth[of i] by (auto simp: j_def)
  from j(2) assms(3) obtain i where "j = JObj [(''loc'', JList [JStr ''body'', JStr n]), (''input'', i)]"
    by (auto simp: error_entry_def split: option.splits)
  with j(1) show ?thesis
    by (auto simp: names_field_def list_ex_iff intro!: bexI[where x = j])
qed

lemma route_screen_invalid:
  "model_validate env ScreeningRequest body = Inl errs \<Longrightarrow>
   route_screen env body = (validation_failed env errs, [])"
  by (simp add: route_screen_def)

lemma route_validate_credentials_invalid:
  "model_validate env CredentialsRequest body = Inl errs \<Longrightarrow>
   route_validate_credentials env body = (validation_failed env errs, [])"
  by (simp add: route_validate_credentials_def)

lemma route_screen_valid:
  "model_validate env ScreeningRequest body = Inr request \<Longrightarrow>
   route_screen env body =
     (respond env (fst (screen_stocks env request)), snd (screen_stocks env request))"
  by (simp add: route_screen_def split: prod.splits)

lemma route_validate_credentials_valid:
  "model_validate env CredentialsRequest body = Inr request \<Longrightarrow>
   route_validate_credentials env body =
     (respond env (fst (validate_credentials env request)),
      snd (validate_credentials env request))"
  by (simp add: route_validate_credentials_def split: prod.splits)

lemma float_outside_checked:
  "float_below lo f \<or> float_above hi f \<Longrightarrow> check_float lo hi f \<noteq> None"
  by (cases f; cases lo; cases hi) (auto simp: check_float_def)

lemma outside_bound_rejected:
  "outside_declared_bound env t v \<Longrightarrow> \<exists>e. validate_value env t v = Inl [ErrorDetails [] e v]"
proof (induction env t v rule: outside_declared_bound.induct)
  case (2 env lo hi v)
  then obtain f where f: "lax_float env v = Some f" "float_below lo f \<or> float_above hi f"
    by (auto split: option.splits)
  from float_outside_checked[OF f(2)] f(1) show ?case by auto
qed (auto simp: check_int_def split: option.splits)

lemma field_outside_bound_rejected:
  assumes "f \<in> set fs"
    and "map_of body (fname f) = Some v"
    and "outside_declared_bound env (ftype f) v"
  shows "\<exists>e. model_validate env fs body = Inl (fst (validate_fields env fs body))
            \<and> ErrorDetails [JStr (fname f)] e v \<in> set (fst (validate_fields env fs body))"
proof -
  from assms(3) obtain e where "validate_value env (ftype f) v = Inl [ErrorDetails [] e v]"
    using outside_bound_rejected by blast
  with assms(2) have "validate_field env f body = Inl [ErrorDetails [JStr (fname f)] e v]"
    by (simp add: validate_field_def at_field_def)
  from field_error_rejects[OF assms(1) this] show ?thesis by auto
qed

lemma general_exception_handler_shape:
  "status (general_exception_handler env exc) = 500
   \<and> has_field (content (general_exception_handler env exc)) ''error''
   \<and> has_field (content (general_exception_handler env exc)) ''detail''
   \<and> has_field (content (general_exception_handler env exc)) ''timestamp''
   \<and> \<not> names_field (general_exception_handler env exc) n"
  by (simp add: general_exception_handler_def has_field_def names_field_def)

lemma outside_bound_response:
  assumes "f \<in> set ScreeningRequest"
    and "map_of body (fname f) = Some v"
    and "outside_declared_bound env (ftype f) v"
  shows "isl (model_validate env ScreeningRequest body)
       \<and> snd (route_screen env body) = []
       \<and> (encode (JObj body) \<noteq> None \<longrightarrow>
            status (fst (route_screen env body)) = 422
            \<and> 400 \<le> status (fst (route_screen env body))
            \<and> status (fst (route_screen env body)) < 500
            \<and> names_field (fst (route_screen env body)) (fname f))
       \<and> (encode v = None \<longrightarrow>
            fst (route_screen env body) =
              JSONResponse 500
                (JObj [(''error'', JStr ''Internal server error''),
                       (''detail'', JStr (nonfinite_error env)),
                       (''timestamp'', JStr (now env))]))"
proof -
  let ?errs = "fst (validate_fields env ScreeningRequest body)"
  obtain e where rej: "model_validate env ScreeningRequest body = Inl ?errs"
    and mem: "ErrorDetails [JStr (fname f)] e v \<in> set ?errs"
    using field_outside_bound_rejected[where body = body, OF assms] by blast
  have r: "route_screen env body = (validation_failed env ?errs, [])"
    using rej by (rule route_screen_invalid)
  have a: "status (fst (route_screen env body)) = 422
            \<and> names_field (fst (route_screen env body)) (fname f)"
    if fin: "encode (JObj body) \<noteq> None"
  proof -
    obtain entries where en:
      "validation_failed env ?errs = JSONResponse 422 (JObj [(''detail'', JList entries)])"
      "list_all2 (\<lambda>e j. encode (error_entry e) = Some j) ?errs entries"
      using validation_failed_422[of ?errs env] errors_encode[OF rej fin] by blast
    from entry_names_field[OF en(2) mem] show ?thesis by (simp add: r en(1))
  qed
  have b: "fst (route_screen env body) =
              JSONResponse 500
                (JObj [(''error'', JStr ''Internal server error''),
                       (''detail'', JStr (nonfinite_error env)),
                       (''timestamp'', JStr (now env))])"
    if inf: "encode v = None"
    using validation_failed_500[OF mem, of env] inf
    by (simp add: r general_exception_handler_def)
  from rej a b r show ?thesis by auto
qed

lemma credentials_only_valid:
  "model_validate env ScreeningRequest [(''appKey'', JStr k), (''appSecret'', JStr s)] =
     Inr ((''appKey'', JStr k) # (''appSecret'', JStr s) #
          map (\<lambda>f. (fname f, the (fdefault f))) (drop 2 ScreeningRequest))"
  by (simp add: model_validate_def ScreeningRequest_def validate_field_def)

lemma example_credentials_valid:
  "model_validate env ScreeningRequest example_credentials =
     Inr ((''appKey'', JStr ''key'') # (''appSecret'', JStr ''secret'') #
          map (\<lambda>f. (fname f, the (fdefault f))) (drop 2 ScreeningRequest))"
  unfolding example_credentials_def by (rule credentials_only_valid)

lemma example_credentials_valid_credentials:
  "model_validate env CredentialsRequest example_credentials =
     Inr [(''appKey'', JStr ''key''), (''appSecret'', JStr ''secret'')]"
  by (simp add: model_validate_def CredentialsRequest_def validate_field_def
      example_credentials_def)

lemma validate_field_present:
  "map_of body (fname f) = Some v \<Longrightarrow>
   validate_field env f body =
     (case validate_value env (ftype f) v of
        Inl es \<Rightarrow> Inl (map (at_field (fname f)) es)
      | Inr v' \<Rightarrow> Inr v')"
  by (simp add: validate_field_def)

lemma family_flag_is_no_threshold:
  "(flag, thresholds) \<in> set families \<Longrightarrow> n \<in> set thresholds \<Longrightarrow> flag \<noteq> n"
  by (auto simp: families_def)

lemma missing_credentials_error:
  assumes "map_of body ''appKey'' = None \<or> map_of body ''appSecret'' = None"
    and "Field ''appKey'' (TStr None) None \<in> set fs"
    and "Field ''appSecret'' (TStr None) None \<in> set fs"
  shows "\<exists>n. model_validate env fs body = Inl (fst (validate_fields env fs body))
           \<and> ErrorDetails [JStr n] missing (JObj body) \<in> set (fst (validate_fields env fs body))"
proof -
  from assms(1) obtain f where f: "f \<in> set fs"
    "validate_field env f body = Inl [ErrorDetails [JStr (fname f)] missing (JObj body)]"
  proof
    assume "map_of body ''appKey'' = None"
    then have "validate_field env (Field ''appKey'' (TStr None) None) body
                 = Inl [ErrorDetails [JStr ''appKey''] missing (JObj body)]"
      by (simp add: validate_field_def)
    with assms(2) that show thesis by force
  next
    assume "map_of body ''appSecret'' = None"
    then have "validate_field env (Field ''appSecret'' (TStr None) None) body
                 = Inl [ErrorDetails [JStr ''appSecret''] missing (JObj body)]"
      by (simp add: validate_field_def)
    with assms(3) that show thesis by force
  qed
  from field_error_rejects[OF f] show ?thesis by auto
qed

lemma missing_field_status:
  assumes "model_validate env fs body = Inl errs"
    and "ErrorDetails l missing (JObj body) \<in> set errs"
  shows "status (validation_failed env errs) = (if encode (JObj body) = None then 500 else 422)"
proof (cases "encode (JObj body) = None")
  case True
  with validation_failed_500[OF assms(2), of env] show ?thesis
    by (simp add: general_exception_handler_def)
next
  case False
  then obtain entries where
    "validation_failed env errs = JSONResponse 422 (JObj [(''detail'', JList entries)])"
    using validation_failed_422[of errs env] errors_encode[OF assms(1)] by blast
  with False show ?thesis by simp
qed

lemma show_nat_404: "show_nat 404 = ''404''"
  by code_simp

lemma screen_stocks_sent:
  "encode (JObj request) = Some j \<Longrightarrow>
   client_post env (KOTLIN_SERVICE_URL env @ ''/api/v1/screen'') (JObj request) 300 =
     (downstream env (POST (KOTLIN_SERVICE_URL env @ ''/api/v1/screen'') j 300),
      [POST (KOTLIN_SERVICE_URL env @ ''/api/v1/screen'') j 300])"
  by (simp add: client_post_def del: encode.simps)

lemma screen_null_detail:
  assumes "model_validate env ScreeningRequest body = Inr request"
    and "encode (JObj request) = Some j"
    and "downstream env (POST (KOTLIN_SERVICE_URL env @ ''/api/v1/screen'') j 300) = Inr r"
    and "status_code r \<noteq> 200"
    and "response_text r \<noteq> []" and "decoded r = Inr JNull"
  shows "fst (route_screen env body) =
           (case HTTPStatus_phrase env (status_code r) of
              Some phrase \<Rightarrow>
                JSONResponse (status_code r)
                  (JObj [(''error'', JStr phrase), (''timestamp'', JStr (now env))])
            | None \<Rightarrow>
                JSONResponse 500
                  (JObj [(''error'', JStr (SCREEN_ERROR_PREFIX @ show_nat (status_code r)
                                           @ '' is not a valid HTTPStatus'')),
                         (''timestamp'', JStr (now env))]))"
  using assms(3-)
  by (auto simp: route_screen_valid[OF assms(1)] screen_stocks_def screen_stocks_sent[OF assms(2)]
      respond_def http_exception_handler_def response_json_def make_HTTPException_def
      simp del: encode.simps show_nat.simps split: option.splits)

lemma defaults_model:
  "map (\<lambda>f. (fname f, the (fdefault f))) (drop 2 ScreeningRequest) =
     [(''isProduction'', JBool False),
      (''ma60Enabled'', JBool False), (''ma60Min'', JInt 95), (''ma60Max'', JInt 105),
      (''ma112Enabled'', JBool True), (''ma112Min'', JInt 95), (''ma112Max'', JInt 105),
      (''ma224Enabled'', JBool False), (''ma224Min'', JInt 95), (''ma224Max'', JInt 105),
      (''bbEnabled'', JBool False), (''bbPeriod'', JInt 20),
      (''bbMultiplier'', JFloat (Finite 2)), (''bbPosition'', JStr ''all''),
      (''bbUpperBreak'', JBool False), (''bbLowerBreak'', JBool False),
      (''volumeEnabled'', JBool False), (''volumeMultiple'', JFloat (Finite (3 / 2))),
      (''priceChangeEnabled'', JBool False),
      (''priceChangeMin'', JFloat (Finite (- 100))), (''priceChangeMax'', JFloat (Finite 100)),
      (''excludeETF'', JBool True), (''excludeETN'', JBool True),
      (''excludeManagement'', JBool False),
      (''marketCapEnabled'', JBool False), (''marketCapMin'', JInt 0),
      (''marketCapMax'', JInt 1000000000000),
      (''perEnabled'', JBool False), (''perMin'', JFloat (Finite 0)),
      (''perMax'', JFloat (Finite 30)),
      (''maAlignment'', JBool False),
      (''targetCodes'', JList [])]"
  by (simp add: ScreeningRequest_def)

lemma defaults_encode:
  "encode (JObj ((''appKey'', JStr k) # (''appSecret'', JStr s) #
          map (\<lambda>f. (fname f, the (fdefault f))) (drop 2 ScreeningRequest))) =
   Some (JObj [(''appKey'', JStr k), (''appSecret'', JStr s),
      (''isProduction'', JBool False),
      (''ma60Enabled'', JBool False), (''ma60Min'', JInt 95), (''ma60Max'', JInt 105),
      (''ma112Enabled'', JBool True), (''ma112Min'', JInt 95), (''ma112Max'', JInt 105),
      (''ma224Enabled'', JBool False), (''ma224Min'', JInt 95), (''ma224Max'', JInt 105),
      (''bbEnabled'', JBool False), (''bbPeriod'', JInt 20),
      (''bbMultiplier'', JFloat 2), (''bbPosition'', JStr ''all''),
      (''bbUpperBreak'', JBool False), (''bbLowerBreak'', JBool False),
      (''volumeEnabled'', JBool False), (''volumeMultiple'', JFloat (3 / 2)),
      (''priceChangeEnabled'', JBool False),
      (''priceChangeMin'', JFloat (- 100)), (''priceChangeMax'', JFloat 100),
      (''excludeETF'', JBool True), (''excludeETN'', JBool True),
      (''excludeManagement'', JBool False),
      (''marketCapEnabled'', JBool False), (''marketCapMin'', JInt 0),
      (''marketCapMax'', JInt 1000000000000),
      (''perEnabled'', JBool False), (''perMin'', JFloat 0), (''perMax'', JFloat 30),
      (''maAlignment'', JBool False),
      (''targetCodes'', JList [])])"
  unfolding defaults_model by simp

lemma respond_raised_envelope:
  "has_field (content (respond env (Inl x))) ''error''
   \<and> has_field (content (respond env (Inl x))) ''timestamp''"
  by (cases x)
     (simp_all add: respond_def http_exception_handler_def general_exception_handler_def
       has_field_def)

lemma respond_error_envelope:
  "status (respond env outcome) \<noteq> 200 \<Longrightarrow>
   has_field (content (respond env outcome)) ''error''
   \<and> has_field (content (respond env outcome)) ''timestamp''"
proof (cases outcome)
  case (Inl x)
  then show ?thesis using respond_raised_envelope by simp
next
  case (Inr j)
  assume "status (respond env outcome) \<noteq> 200"
  with Inr show ?thesis by (simp add: respond_def)
qed

lemma validation_failed_shape:
  "(status (validation_failed env errs) = 422
      \<and> has_field (content (validation_failed env errs)) ''detail''
      \<and> \<not> has_field (content (validation_failed env errs)) ''error''
      \<and> \<not> has_field (content (validation_failed env errs)) ''timestamp'')
   \<or> (status (validation_failed env errs) = 500
      \<and> has_field (content (validation_failed env errs)) ''error''
      \<and> has_field (content (validation_failed env errs)) ''detail''
      \<and> has_field (content (validation_failed env errs)) ''timestamp'')"
  using validation_failed_cases[of env errs]
  by (auto simp: has_field_def general_exception_handler_def)

lemma validation_failed_finite:
  assumes "model_validate env fs body = Inl errs" and "encode (JObj body) \<noteq> None"
  shows "status (validation_failed env errs) = 422
      \<and> has_field (content (validation_failed env errs)) ''detail''
      \<and> \<not> has_field (content (validation_failed env errs)) ''error''
      \<and> \<not> has_field (content (validation_failed env errs)) ''timestamp''"
proof -
  obtain entries where
    "validation_failed env errs = JSONResponse 422 (JObj [(''detail'', JList entries)])"
    using validation_failed_422[of errs env] errors_encode[OF assms] by blast
  then show ?thesis by (simp add: has_field_def)
qed

section \<open>The screen operation\<close>

text \<open>
  C1. For a screen request whose body is valid and whose model the client can encode
  and send: when the client raises \<open>httpx.TimeoutException\<close> the answer is status 504
  with the fixed timeout message, and when it raises \<open>httpx.ConnectError\<close> the answer is
  status 503 with the fixed connection message. In both cases the downstream service
  was called exactly once.
\<close>

theorem screen_transport_failures:
  assumes "model_validate env ScreeningRequest body = Inr request"
    and "encode (JObj request) = Some j"
  shows "(downstream env (POST (KOTLIN_SERVICE_URL env @ ''/api/v1/screen'') j 300)
            = Inl (TimeoutException m) \<longrightarrow>
          route_screen env body =
            (JSONResponse 504
               (JObj [(''error'', JStr SCREEN_TIMEOUT_DETAIL), (''timestamp'', JStr (now env))]),
             [POST (KOTLIN_SERVICE_URL env @ ''/api/v1/screen'') j 300]))
       \<and> (downstream env (POST (KOTLIN_SERVICE_URL env @ ''/api/v1/screen'') j 300)
            = Inl (ConnectError m) \<longrightarrow>
          route_screen env body =
            (JSONResponse 503
               (JObj [(''error'', JStr SCREEN_CONNECT_DETAIL), (''timestamp'', JStr (now env))]),
             [POST (KOTLIN_SERVICE_URL env @ ''/api/v1/screen'') j 300]))"
  by (simp add: route_screen_valid[OF assms(1)] screen_stocks_def screen_stocks_sent[OF assms(2)]
      respond_def http_exception_handler_def del: encode.simps)

theorem screen_transport_failures_witness:
  "model_validate (example_env (\<lambda>c. Inl (TimeoutException ''timed out'')))
       ScreeningRequest example_credentials =
     Inr ((''appKey'', JStr ''key'') # (''appSecret'', JStr ''secret'') #
          map (\<lambda>f. (fname f, the (fdefault f))) (drop 2 ScreeningRequest))
   \<and> status (fst (route_screen (example_env (\<lambda>c. Inl (TimeoutException ''timed out'')))
        example_credentials)) = 504
   \<and> length (snd (route_screen (example_env (\<lambda>c. Inl (TimeoutException ''timed out'')))
        example_credentials)) = 1
   \<and> status (fst (route_screen (example_env (\<lambda>c. Inl (ConnectError ''refused'')))
        example_credentials)) = 503
   \<and> length (snd (route_screen (example_env (\<lambda>c. Inl (ConnectError ''refused'')))
        example_credentials)) = 1"
  using screen_transport_failures[OF example_credentials_valid defaults_encode,
      of "example_env (\<lambda>c. Inl (TimeoutException ''timed out''))" "''timed out''"]
    screen_transport_failures[OF example_credentials_valid defaults_encode,
      of "example_env (\<lambda>c. Inl (ConnectError ''refused''))" "''refused''"]
    example_credentials_valid
  by (simp add: example_env_def)

text \<open>
  C2, as stated, fails: a downstream answer 404 with the body \<open>{}\<close> is relayed with
  status 404, but the body of the gateway's answer is not \<open>{}\<close>: the HTTP exception
  handler puts the downstream body under \<open>error\<close> and adds \<open>timestamp\<close>.
\<close>

theorem screen_downstream_error_is_wrapped_counterexample:
  "status (fst (route_screen
      (example_env (\<lambda>c. Inr \<lparr>status_code = 404, response_text = ''{}'', decoded = Inr (JObj [])\<rparr>))
      example_credentials)) = 404
   \<and> content (fst (route_screen
      (example_env (\<lambda>c. Inr \<lparr>status_code = 404, response_text = ''{}'', decoded = Inr (JObj [])\<rparr>))
      example_credentials))
     = JObj [(''error'', JObj []), (''timestamp'', JStr ''2024-01-01T00:00:00'')]
   \<and> content (fst (route_screen
      (example_env (\<lambda>c. Inr \<lparr>status_code = 404, response_text = ''{}'', decoded = Inr (JObj [])\<rparr>))
      example_credentials))
     \<noteq> JObj []"
  by (simp add: route_screen_valid[OF example_credentials_valid] screen_stocks_def
      client_post_def defaults_encode respond_def make_HTTPException_def
      http_exception_handler_def example_env_def response_json_def del: encode.simps)

text \<open>
  C2, amended. For a screen request whose body is valid, and a downstream answer with a
  status other than 200 whose body is empty or decodes as JSON to a value other than
  \<open>null\<close>: the gateway's answer has the same status code, and its body is
  \<open>{error: detail, timestamp}\<close>, where \<open>detail\<close> is the decoded downstream body, or
  \<open>{error: Unknown error}\<close> when the downstream body is empty. The downstream service
  was called once.
\<close>

theorem screen_relays_downstream_error:
  assumes "model_validate env ScreeningRequest body = Inr request"
    and "encode (JObj request) = Some j"
    and "downstream env (POST (KOTLIN_SERVICE_URL env @ ''/api/v1/screen'') j 300) = Inr r"
    and "status_code r \<noteq> 200"
    and "response_text r = [] \<and> detail = JObj [(''error'', JStr ''Unknown error'')]
       \<or> response_text r \<noteq> [] \<and> decoded r = Inr detail \<and> detail \<noteq> JNull"
  shows "route_screen env body =
           (JSONResponse (status_code r)
              (JObj [(''error'', detail), (''timestamp'', JStr (now env))]),
            [POST (KOTLIN_SERVICE_URL env @ ''/api/v1/screen'') j 300])"
  using assms(3-)
  by (auto simp: route_screen_valid[OF assms(1)] screen_stocks_def screen_stocks_sent[OF assms(2)]
      respond_def http_exception_handler_def response_json_def make_HTTPException_def
      simp del: encode.simps)

theorem screen_relays_downstream_error_witness:
  "status_code \<lparr>status_code = 404, response_text = ''{}'', decoded = Inr (JObj [])\<rparr> \<noteq> 200
   \<and> fst (route_screen
      (example_env (\<lambda>c. Inr \<lparr>status_code = 404, response_text = ''{}'', decoded = Inr (JObj [])\<rparr>))
      example_credentials) =
     JSONResponse 404 (JObj [(''error'', JObj []), (''timestamp'', JStr ''2024-01-01T00:00:00'')])
   \<and> length (snd (route_screen
      (example_env (\<lambda>c. Inr \<lparr>status_code = 404, response_text = ''{}'', decoded = Inr (JObj [])\<rparr>))
      example_credentials)) = 1
   \<and> fst (route_screen
      (example_env (\<lambda>c. Inr \<lparr>status_code = 502, response_text = [],
                              decoded = Inl ''Expecting value: line 1 column 1 (char 0)''\<rparr>))
      example_credentials) =
     JSONResponse 502 (JObj [(''error'', JObj [(''error'', JStr ''Unknown error'')]),
                              (''timestamp'', JStr ''2024-01-01T00:00:00'')])
   \<and> length (snd (route_screen
      (example_env (\<lambda>c. Inr \<lparr>status_code = 502, response_text = [],
                              decoded = Inl ''Expecting value: line 1 column 1 (char 0)''\<rparr>))
      example_credentials)) = 1"
  using screen_relays_downstream_error[OF example_credentials_valid defaults_encode,
      where env = "example_env (\<lambda>c. Inr \<lparr>status_code = 404, response_text = ''{}'', decoded = Inr (JObj [])\<rparr>)"
        and r = "\<lparr>status_code = 404, response_text = ''{}'', decoded = Inr (JObj [])\<rparr>"
        and detail = "JObj []"]
    screen_relays_downstream_error[OF example_credentials_valid defaults_encode,
      where env = "example_env (\<lambda>c. Inr \<lparr>status_code = 502, response_text = [],
                              decoded = Inl ''Expecting value: line 1 column 1 (char 0)''\<rparr>)"
        and r = "\<lparr>status_code = 502, response_text = [],
                              decoded = Inl ''Expecting value: line 1 column 1 (char 0)''\<rparr>"
        and detail = "JObj [(''error'', JStr ''Unknown error'')]"]
  by (simp add: example_env_def)

section \<open>Validation of the screen request\<close>




text \<open>
  C4. The threshold fields of a filter family are checked whatever the enable flag of the
  family is. For a family, a threshold field of it and a value outside the declared bound
  of the field: the check of the field gives the same result with any value \<open>b\<close> of the
  flag as with the flag left as it was, and the request fails validation and is not
  forwarded; when the body has no float that is not finite the answer has status 422
  and names the field. The instance is \<open>ma60Enabled = false\<close>, \<open>ma60Min = 500\<close>.
\<close>

theorem disabled_family_thresholds_checked:
  assumes "(flag, thresholds) \<in> set families"
    and "fname f \<in> set thresholds"
    and "f \<in> set ScreeningRequest"
    and "outside_declared_bound env (ftype f) v"
  shows "validate_field env f (AList.update flag b (AList.update (fname f) v body))
           = validate_field env f (AList.update (fname f) v body)
       \<and> isl (model_validate env ScreeningRequest
                (AList.update flag b (AList.update (fname f) v body)))
       \<and> snd (route_screen env (AList.update flag b (AList.update (fname f) v body))) = []
       \<and> (encode (JObj (AList.update flag b (AList.update (fname f) v body))) \<noteq> None \<longrightarrow>
            status (fst (route_screen env
              (AList.update flag b (AList.update (fname f) v body)))) = 422
            \<and> names_field (fst (route_screen env
              (AList.update flag b (AList.update (fname f) v body)))) (fname f))"
proof -
  have neq: "flag \<noteq> fname f"
    using assms(1,2) by (rule family_flag_is_no_threshold)
  let ?body = "AList.update flag b (AList.update (fname f) v body)"
  have present: "map_of ?body (fname f) = Some v"
    using neq by (simp add: update_conv')
  have present': "map_of (AList.update (fname f) v body) (fname f) = Some v"
    by (simp add: update_conv')
  have "validate_field env f ?body = validate_field env f (AList.update (fname f) v body)"
    by (simp only: validate_field_present[OF present] validate_field_present[OF present'])
  with outside_bound_response[OF assms(3) present assms(4)] show ?thesis by simp
qed

theorem disabled_family_thresholds_checked_witness:
  "(''ma60Enabled'', [''ma60Min'', ''ma60Max'']) \<in> set families
   \<and> ''ma60Min'' \<in> set [''ma60Min'', ''ma60Max'']
   \<and> Field ''ma60Min'' (TInt (Some 0) (Some 200)) (Some (JInt 95)) \<in> set ScreeningRequest
   \<and> outside_declared_bound (example_env (\<lambda>c. Inl (Error ''unused'')))
        (TInt (Some 0) (Some 200)) (JInt 500)
   \<and> AList.update ''ma60Enabled'' (JBool False)
        (AList.update ''ma60Min'' (JInt 500) example_credentials) =
      [(''appKey'', JStr ''key''), (''appSecret'', JStr ''secret''),
       (''ma60Min'', JInt 500), (''ma60Enabled'', JBool False)]
   \<and> encode (JObj [(''appKey'', JStr ''key''), (''appSecret'', JStr ''secret''),
       (''ma60Min'', JInt 500), (''ma60Enabled'', JBool False)]) \<noteq> None
   \<and> status (fst (route_screen (example_env (\<lambda>c. Inl (Error ''unused'')))
        [(''appKey'', JStr ''key''), (''appSecret'', JStr ''secret''),
         (''ma60Min'', JInt 500), (''ma60Enabled'', JBool False)])) = 422
   \<and> names_field (fst (route_screen (example_env (\<lambda>c. Inl (Error ''unused'')))
        [(''appKey'', JStr ''key''), (''appSecret'', JStr ''secret''),
         (''ma60Min'', JInt 500), (''ma60Enabled'', JBool False)])) ''ma60Min''
   \<and> snd (route_screen (example_env (\<lambda>c. Inl (Error ''unused'')))
        [(''appKey'', JStr ''key''), (''appSecret'', JStr ''secret''),
         (''ma60Min'', JInt 500), (''ma60Enabled'', JBool False)]) = []"
proof -
  let ?env = "example_env (\<lambda>c. Inl (Error ''unused''))"
  let ?f = "Field ''ma60Min'' (TInt (Some 0) (Some 200)) (Some (JInt 95))"
  have a: "(''ma60Enabled'', [''ma60Min'', ''ma60Max'']) \<in> set families"
    by (simp add: families_def)
  have b: "fname ?f \<in> set [''ma60Min'', ''ma60Max'']" by simp
  have c: "?f \<in> set ScreeningRequest" by (simp add: ScreeningRequest_def)
  have d: "outside_declared_bound ?env (ftype ?f) (JInt 500)" by simp
  have u: "AList.update ''ma60Enabled'' (JBool False)
        (AList.update ''ma60Min'' (JInt 500) example_credentials) =
      [(''appKey'', JStr ''key''), (''appSecret'', JStr ''secret''),
       (''ma60Min'', JInt 500), (''ma60Enabled'', JBool False)]"
    by (simp add: example_credentials_def)
  have e: "encode (JObj [(''appKey'', JStr ''key''), (''appSecret'', JStr ''secret''),
       (''ma60Min'', JInt 500), (''ma60Enabled'', JBool False)]) \<noteq> None"
    by simp
  show ?thesis
    using a c d u e disabled_family_thresholds_checked
      [where flag = "''ma60Enabled''" and thresholds = "[''ma60Min'', ''ma60Max'']"
         and f = ?f and v = "JInt 500" and b = "JBool False" and body = example_credentials
         and env = ?env, OF a b c d]
    by (simp del: encode.simps)
qed

section \<open>The validate-credentials operation\<close>

text \<open>
  C5, as stated, fails: a downstream answer 401 with an empty body, which is no transport
  exception, is answered with status 500, since \<open>response.json()\<close> is called before the
  status is looked at and raises on a body that does not decode.
\<close>

theorem validate_credentials_undecodable_body_counterexample:
  "route_validate_credentials
      (example_env (\<lambda>c. Inr \<lparr>status_code = 401, response_text = [],
                              decoded = Inl ''Expecting value: line 1 column 1 (char 0)''\<rparr>))
      example_credentials =
     (JSONResponse 500
        (JObj [(''error'', JStr (CREDENTIALS_ERROR_PREFIX
                                  @ ''Expecting value: line 1 column 1 (char 0)'')),
               (''timestamp'', JStr ''2024-01-01T00:00:00'')]),
      [POST ''http://kotlin-screener:8080/api/v1/validate-credentials''
         (JObj [(''appKey'', JStr ''key''), (''appSecret'', JStr ''secret'')]) 10])"
  by (simp add: route_validate_credentials_valid[OF example_credentials_valid_credentials]
      validate_credentials_def respond_def http_exception_handler_def example_env_def
      response_json_def str_attr_def)

text \<open>
  C5, amended. For a validate-credentials request whose body is valid:
  a downstream 200 whose body decodes as JSON gives \<open>{valid: true, message}\<close>;
  any other downstream status whose body decodes to a JSON object gives
  \<open>{valid: false, message}\<close> with the downstream \<open>message\<close> or the default text;
  both with gateway status 200. An exception of the client, and a body that does not
  decode, give status 500 with the text of the exception. The status of the answer is
  200 or 500 whatever the downstream status is, and the downstream service is called once.
\<close>

theorem validate_credentials_outcomes:
  assumes "model_validate env CredentialsRequest body = Inr request"
    and "c = POST (KOTLIN_SERVICE_URL env @ ''/api/v1/validate-credentials'')
               (JObj [(''appKey'', JStr (str_attr request ''appKey'')),
                      (''appSecret'', JStr (str_attr request ''appSecret''))]) 10"
  shows "(downstream env c = Inr r \<and> status_code r = 200 \<and> decoded r = Inr j \<longrightarrow>
            route_validate_credentials env body =
              (JSONResponse 200
                 (JObj [(''valid'', JBool True), (''message'', JStr CREDENTIALS_OK_MESSAGE)]),
               [c]))
       \<and> (downstream env c = Inr r \<and> status_code r \<noteq> 200 \<and> decoded r = Inr (JObj kvs) \<longrightarrow>
            route_validate_credentials env body =
              (JSONResponse 200
                 (JObj [(''valid'', JBool False),
                        (''message'', case map_of kvs ''message'' of
                                        Some msg \<Rightarrow> msg
                                      | None \<Rightarrow> JStr CREDENTIALS_FAILED_MESSAGE)]),
               [c]))
       \<and> (downstream env c = Inl e \<longrightarrow>
            route_validate_credentials env body =
              (JSONResponse 500
                 (JObj [(''error'', JStr (CREDENTIALS_ERROR_PREFIX @ str e)),
                        (''timestamp'', JStr (now env))]),
               [c]))
       \<and> (downstream env c = Inr r \<and> decoded r = Inl m \<longrightarrow>
            route_validate_credentials env body =
              (JSONResponse 500
                 (JObj [(''error'', JStr (CREDENTIALS_ERROR_PREFIX @ m)),
                        (''timestamp'', JStr (now env))]),
               [c]))
       \<and> (status (fst (route_validate_credentials env body)) = 200
          \<or> status (fst (route_validate_credentials env body)) = 500)
       \<and> snd (route_validate_credentials env body) = [c]"
  unfolding assms(2)
  by (auto simp: route_validate_credentials_valid[OF assms(1)]
      validate_credentials_def respond_def http_exception_handler_def
      response_json_def dict_get_def Let_def split: sum.splits jsonv.splits)

theorem validate_credentials_outcomes_witness:
  "route_validate_credentials
      (example_env (\<lambda>c. Inr \<lparr>status_code = 200, response_text = ''{}'', decoded = Inr (JObj [])\<rparr>))
      example_credentials =
     (JSONResponse 200
        (JObj [(''valid'', JBool True), (''message'', JStr CREDENTIALS_OK_MESSAGE)]),
      [POST ''http://kotlin-screener:8080/api/v1/validate-credentials''
         (JObj [(''appKey'', JStr ''key''), (''appSecret'', JStr ''secret'')]) 10])
   \<and> route_validate_credentials
      (example_env (\<lambda>c. Inr \<lparr>status_code = 401, response_text = ''{}'', decoded = Inr (JObj [])\<rparr>))
      example_credentials =
     (JSONResponse 200
        (JObj [(''valid'', JBool False), (''message'', JStr CREDENTIALS_FAILED_MESSAGE)]),
      [POST ''http://kotlin-screener:8080/api/v1/validate-credentials''
         (JObj [(''appKey'', JStr ''key''), (''appSecret'', JStr ''secret'')]) 10])
   \<and> route_validate_credentials
      (example_env (\<lambda>c. Inl (ConnectError ''refused'')))
      example_credentials =
     (JSONResponse 500
        (JObj [(''error'', JStr (CREDENTIALS_ERROR_PREFIX @ ''refused'')),
               (''timestamp'', JStr ''2024-01-01T00:00:00'')]),
      [POST ''http://kotlin-screener:8080/api/v1/validate-credentials''
         (JObj [(''appKey'', JStr ''key''), (''appSecret'', JStr ''secret'')]) 10])
   \<and> route_validate_credentials
      (example_env (\<lambda>c. Inr \<lparr>status_code = 200, response_text = ''ok'',
                              decoded = Inl ''Expecting value: line 1 column 1 (char 0)''\<rparr>))
      example_credentials =
     (JSONResponse 500
        (JObj [(''error'', JStr (CREDENTIALS_ERROR_PREFIX
                                  @ ''Expecting value: line 1 column 1 (char 0)'')),
               (''timestamp'', JStr ''2024-01-01T00:00:00'')]),
      [POST ''http://kotlin-screener:8080/api/v1/validate-credentials''
         (JObj [(''appKey'', JStr ''key''), (''appSecret'', JStr ''secret'')]) 10])"
  using validate_credentials_outcomes[OF example_credentials_valid_credentials refl,
      where env = "example_env (\<lambda>c. Inr \<lparr>status_code = 200, response_text = ''{}'', decoded = Inr (JObj [])\<rparr>)"
        and r = "\<lparr>status_code = 200, response_text = ''{}'', decoded = Inr (JObj [])\<rparr>"
        and j = "JObj []"]
    validate_credentials_outcomes[OF example_credentials_valid_credentials refl,
      where env = "example_env (\<lambda>c. Inr \<lparr>status_code = 401, response_text = ''{}'', decoded = Inr (JObj [])\<rparr>)"
        and r = "\<lparr>status_code = 401, response_text = ''{}'', decoded = Inr (JObj [])\<rparr>"
        and kvs = "[]"]
    validate_credentials_outcomes[OF example_credentials_valid_credentials refl,
      where env = "example_env (\<lambda>c. Inl (ConnectError ''refused''))"
        and e = "ConnectError ''refused''"]
    validate_credentials_outcomes[OF example_credentials_valid_credentials refl,
      where env = "example_env (\<lambda>c. Inr \<lparr>status_code = 200, response_text = ''ok'',
                              decoded = Inl ''Expecting value: line 1 column 1 (char 0)''\<rparr>)"
        and r = "\<lparr>status_code = 200, response_text = ''ok'',
                              decoded = Inl ''Expecting value: line 1 column 1 (char 0)''\<rparr>"
        and m = "''Expecting value: line 1 column 1 (char 0)''"]
  by (simp add: example_env_def str_attr_def)

section \<open>The stock-codes operation\<close>

text \<open>
  C6. The code at the input of the claim: the downstream service answers the list-codes
  call with status 404. The handler raises an \<open>HTTPException\<close> with status 404 inside
  its own \<open>try\<close>, whose \<open>except Exception\<close> catches it, so the answer has status 500
  and not 404.
\<close>

theorem stock_codes_downstream_404_gives_500:
  "route_stock_codes
      (example_env (\<lambda>c. Inr \<lparr>status_code = 404, response_text = ''{}'', decoded = Inr (JObj [])\<rparr>)) =
     (JSONResponse 500
        (JObj [(''error'', JStr (STOCK_CODES_ERROR_PREFIX @ ''404: '' @ STOCK_CODES_FAILED_DETAIL)),
               (''timestamp'', JStr ''2024-01-01T00:00:00'')]),
      [GET ''http://kotlin-screener:8080/api/v1/stock-codes'' 5])"
  by (simp add: route_stock_codes_def get_stock_codes_def respond_def
      http_exception_handler_def example_env_def show_nat_404 del: show_nat.simps)

section \<open>The error envelope\<close>

text \<open>
  C7, as stated, fails: a screen request with an empty body fails validation and is
  answered by the framework's handler with status 422 and a body that has \<open>detail\<close> but
  no \<open>timestamp\<close>.
\<close>

theorem validation_failure_has_no_timestamp_counterexample:
  "fst (route_screen (example_env (\<lambda>c. Inl (Error ''unused''))) []) =
     JSONResponse 422
       (JObj [(''detail'', JList
          [JObj [(''loc'', JList [JStr ''body'', JStr ''appKey'']), (''input'', JObj [])],
           JObj [(''loc'', JList [JStr ''body'', JStr ''appSecret'']), (''input'', JObj [])]])])
   \<and> \<not> has_field (content (fst (route_screen (example_env (\<lambda>c. Inl (Error ''unused'')))
                                     []))) ''timestamp''"
  by (simp add: route_screen_def model_validate_def ScreeningRequest_def validate_field_def
      validation_failed_def request_validation_exception_handler_def error_entry_def
      has_field_def)

text \<open>
  C7, amended. Every answer made by the two exception handlers of the gateway, for an
  \<open>HTTPException\<close> and for any other exception, is a JSON object with the fields
  \<open>error\<close> and \<open>timestamp\<close>; so every answer of the screen, validate-credentials
  and stock-codes routes to a valid body that has a status other than 200 has both
  fields, and the health route always answers 200. A body that fails validation and
  has no float that is not finite is answered by the framework's handler: status 422
  and the field \<open>detail\<close>, and neither \<open>error\<close> nor \<open>timestamp\<close>. Any other answer to
  a body that fails validation is the 500 of the fallback handler, with \<open>error\<close>,
  \<open>detail\<close> and \<open>timestamp\<close>.
\<close>

theorem handler_error_envelope:
  "has_field (content (respond env (Inl x))) ''error''
   \<and> has_field (content (respond env (Inl x))) ''timestamp''
   \<and> (model_validate env ScreeningRequest body = Inr request
        \<and> status (fst (route_screen env body)) \<noteq> 200 \<longrightarrow>
        has_field (content (fst (route_screen env body))) ''error''
        \<and> has_field (content (fst (route_screen env body))) ''timestamp'')
   \<and> (model_validate env CredentialsRequest body' = Inr request'
        \<and> status (fst (route_validate_credentials env body')) \<noteq> 200 \<longrightarrow>
        has_field (content (fst (route_validate_credentials env body'))) ''error''
        \<and> has_field (content (fst (route_validate_credentials env body'))) ''timestamp'')
   \<and> (status (fst (route_stock_codes env)) \<noteq> 200 \<longrightarrow>
        has_field (content (fst (route_stock_codes env))) ''error''
        \<and> has_field (content (fst (route_stock_codes env))) ''timestamp'')
   \<and> status (fst (route_health env)) = 200
   \<and> (model_validate env ScreeningRequest body = Inl errs \<and> encode (JObj body) \<noteq> None \<longrightarrow>
        status (fst (route_screen env body)) = 422
        \<and> has_field (content (fst (route_screen env body))) ''detail''
        \<and> \<not> has_field (content (fst (route_screen env body))) ''error''
        \<and> \<not> has_field (content (fst (route_screen env body))) ''timestamp'')
   \<and> (model_validate env ScreeningRequest body = Inl errs
        \<and> status (fst (route_screen env body)) \<noteq> 422 \<longrightarrow>
        status (fst (route_screen env body)) = 500
        \<and> has_field (content (fst (route_screen env body))) ''error''
        \<and> has_field (content (fst (route_screen env body))) ''detail''
        \<and> has_field (content (fst (route_screen env body))) ''timestamp'')
   \<and> (model_validate env CredentialsRequest body' = Inl errs' \<and> encode (JObj body') \<noteq> None \<longrightarrow>
        status (fst (route_validate_credentials env body')) = 422
        \<and> has_field (content (fst (route_validate_credentials env body'))) ''detail''
        \<and> \<not> has_field (content (fst (route_validate_credentials env body'))) ''error''
        \<and> \<not> has_field (content (fst (route_validate_credentials env body'))) ''timestamp'')
   \<and> (model_validate env CredentialsRequest body' = Inl errs'
        \<and> status (fst (route_validate_credentials env body')) \<noteq> 422 \<longrightarrow>
        status (fst (route_validate_credentials env body')) = 500
        \<and> has_field (content (fst (route_validate_credentials env body'))) ''error''
        \<and> has_field (content (fst (route_validate_credentials env body'))) ''detail''
        \<and> has_field (content (fst (route_validate_credentials env body'))) ''timestamp'')"
proof -
  have screen: "model_validate env ScreeningRequest body = Inr request
        \<and> status (fst (route_screen env body)) \<noteq> 200 \<longrightarrow>
        has_field (content (fst (route_screen env body))) ''error''
        \<and> has_field (content (fst (route_screen env body))) ''timestamp''"
    using respond_error_envelope[of env "fst (screen_stocks env request)"]
    by (auto simp: route_screen_valid)
  have cred: "model_validate env CredentialsRequest body' = Inr request'
        \<and> status (fst (route_validate_credentials env body')) \<noteq> 200 \<longrightarrow>
        has_field (content (fst (route_validate_credentials env body'))) ''error''
        \<and> has_field (content (fst (route_validate_credentials env body'))) ''timestamp''"
    using respond_error_envelope[of env "fst (validate_credentials env request')"]
    by (auto simp: route_validate_credentials_valid)
  have codes: "status (fst (route_stock_codes env)) \<noteq> 200 \<longrightarrow>
        has_field (content (fst (route_stock_codes env))) ''error''
        \<and> has_field (content (fst (route_stock_codes env))) ''timestamp''"
    using respond_error_envelope[of env "fst (get_stock_codes env)"]
    by (auto simp: route_stock_codes_def split: prod.splits)
  have health: "status (fst (route_health env)) = 200"
    by (simp add: route_health_def health_check_def respond_def Let_def)
  have v1: "model_validate env ScreeningRequest body = Inl errs \<and> encode (JObj body) \<noteq> None \<longrightarrow>
        status (fst (route_screen env body)) = 422
        \<and> has_field (content (fst (route_screen env body))) ''detail''
        \<and> \<not> has_field (content (fst (route_screen env body))) ''error''
        \<and> \<not> has_field (content (fst (route_screen env body))) ''timestamp''"
    using validation_failed_finite[of env ScreeningRequest body errs]
    by (auto simp: route_screen_invalid simp del: encode.simps)
  have v2: "model_validate env ScreeningRequest body = Inl errs
        \<and> status (fst (route_screen env body)) \<noteq> 422 \<longrightarrow>
        status (fst (route_screen env body)) = 500
        \<and> has_field (content (fst (route_screen env body))) ''error''
        \<and> has_field (content (fst (route_screen env body))) ''detail''
        \<and> has_field (content (fst (route_screen env body))) ''timestamp''"
    using validation_failed_shape[of env errs]
    by (auto simp: route_screen_invalid)
  have v3: "model_validate env CredentialsRequest body' = Inl errs' \<and> encode (JObj body') \<noteq> None \<longrightarrow>
        status (fst (route_validate_credentials env body')) = 422
        \<and> has_field (content (fst (route_validate_credentials env body'))) ''detail''
        \<and> \<not> has_field (content (fst (route_validate_credentials env body'))) ''error''
        \<and> \<not> has_field (content (fst (route_validate_credentials env body'))) ''timestamp''"
    using validation_failed_finite[of env CredentialsRequest body' errs']
    by (auto simp: route_validate_credentials_invalid simp del: encode.simps)
  have v4: "model_validate env CredentialsRequest body' = Inl errs'
        \<and> status (fst (route_validate_credentials env body')) \<noteq> 422 \<longrightarrow>
        status (fst (route_validate_credentials env body')) = 500
        \<and> has_field (content (fst (route_validate_credentials env body'))) ''error''
        \<and> has_field (content (fst (route_validate_credentials env body'))) ''detail''
        \<and> has_field (content (fst (route_validate_credentials env body'))) ''timestamp''"
    using validation_failed_shape[of env errs']
    by (auto simp: route_validate_credentials_invalid)
  show ?thesis
    using respond_raised_envelope[of env x] screen cred codes health v1 v2 v3 v4 by blast
qed

theorem handler_error_envelope_witness:
  "model_validate (example_env (\<lambda>c. Inl (TimeoutException ''timed out'')))
       ScreeningRequest example_credentials =
     Inr ((''appKey'', JStr ''key'') # (''appSecret'', JStr ''secret'') #
          map (\<lambda>f. (fname f, the (fdefault f))) (drop 2 ScreeningRequest))
   \<and> status (fst (route_screen (example_env (\<lambda>c. Inl (TimeoutException ''timed out'')))
         example_credentials)) \<noteq> 200
   \<and> has_field (content (fst (route_screen
         (example_env (\<lambda>c. Inl (TimeoutException ''timed out''))) example_credentials))) ''error''
   \<and> has_field (content (fst (route_screen
         (example_env (\<lambda>c. Inl (TimeoutException ''timed out''))) example_credentials))) ''timestamp''
   \<and> model_validate (example_env (\<lambda>c. Inl (TimeoutException ''timed out'')))
       CredentialsRequest example_credentials =
       Inr [(''appKey'', JStr ''key''), (''appSecret'', JStr ''secret'')]
   \<and> status (fst (route_validate_credentials
         (example_env (\<lambda>c. Inl (TimeoutException ''timed out''))) example_credentials)) \<noteq> 200
   \<and> has_field (content (fst (route_validate_credentials
         (example_env (\<lambda>c. Inl (TimeoutException ''timed out''))) example_credentials))) ''error''
   \<and> has_field (content (fst (route_validate_credentials
         (example_env (\<lambda>c. Inl (TimeoutException ''timed out''))) example_credentials))) ''timestamp''
   \<and> status (fst (route_stock_codes
         (example_env (\<lambda>c. Inl (TimeoutException ''timed out''))))) \<noteq> 200
   \<and> has_field (content (fst (route_stock_codes
         (example_env (\<lambda>c. Inl (TimeoutException ''timed out'')))))) ''error''
   \<and> has_field (content (fst (route_stock_codes
         (example_env (\<lambda>c. Inl (TimeoutException ''timed out'')))))) ''timestamp''
   \<and> isl (model_validate (example_env (\<lambda>c. Inl (TimeoutException ''timed out'')))
         ScreeningRequest [(''appKey'', JStr ''key'')])
   \<and> encode (JObj [(''appKey'', JStr ''key'')]) \<noteq> None
   \<and> status (fst (route_screen (example_env (\<lambda>c. Inl (TimeoutException ''timed out'')))
         [(''appKey'', JStr ''key'')])) = 422
   \<and> \<not> has_field (content (fst (route_screen
         (example_env (\<lambda>c. Inl (TimeoutException ''timed out'')))
         [(''appKey'', JStr ''key'')]))) ''timestamp''
   \<and> isl (model_validate (example_env (\<lambda>c. Inl (TimeoutException ''timed out'')))
         ScreeningRequest [(''appKey'', JStr ''key''), (''perMin'', JFloat NegInf)])
   \<and> status (fst (route_screen (example_env (\<lambda>c. Inl (TimeoutException ''timed out'')))
         [(''appKey'', JStr ''key''), (''perMin'', JFloat NegInf)])) = 500
   \<and> has_field (content (fst (route_screen
         (example_env (\<lambda>c. Inl (TimeoutException ''timed out'')))
         [(''appKey'', JStr ''key''), (''perMin'', JFloat NegInf)]))) ''timestamp''"
proof -
  let ?env = "example_env (\<lambda>c. Inl (TimeoutException ''timed out''))"
  have a: "status (fst (route_screen ?env example_credentials)) \<noteq> 200"
    by (simp add: route_screen_valid[OF example_credentials_valid] screen_stocks_def
        client_post_def defaults_encode respond_def http_exception_handler_def example_env_def
        del: encode.simps)
  have b: "status (fst (route_validate_credentials ?env example_credentials)) \<noteq> 200"
    by (simp add: route_validate_credentials_valid[OF example_credentials_valid_credentials]
        validate_credentials_def respond_def http_exception_handler_def example_env_def)
  have c: "status (fst (route_stock_codes ?env)) \<noteq> 200"
    by (simp add: route_stock_codes_def get_stock_codes_def respond_def
        http_exception_handler_def example_env_def)
  have d: "model_validate ?env ScreeningRequest [(''appKey'', JStr ''key'')] =
             Inl [ErrorDetails [JStr ''appSecret''] missing (JObj [(''appKey'', JStr ''key'')])]"
    by (simp add: model_validate_def ScreeningRequest_def validate_field_def)
  have e: "encode (JObj [(''appKey'', JStr ''key'')]) \<noteq> None" by simp
  have f: "model_validate ?env ScreeningRequest
             [(''appKey'', JStr ''key''), (''perMin'', JFloat NegInf)] =
             Inl [ErrorDetails [JStr ''appSecret''] missing
                    (JObj [(''appKey'', JStr ''key''), (''perMin'', JFloat NegInf)]),
                  ErrorDetails [JStr ''perMin''] greater_than_equal (JFloat NegInf)]"
    by (simp add: model_validate_def ScreeningRequest_def validate_field_def check_float_def
        at_field_def)
  have g: "status (fst (route_screen ?env
             [(''appKey'', JStr ''key''), (''perMin'', JFloat NegInf)])) \<noteq> 422"
    by (simp add: route_screen_invalid[OF f] validation_failed_def
        request_validation_exception_handler_def error_entry_def general_exception_handler_def)
  show ?thesis
    using a b c d e f g example_credentials_valid[of ?env]
      example_credentials_valid_credentials[of ?env]
      handler_error_envelope[where env = ?env
        and body = example_credentials and body' = example_credentials
        and request = "(''appKey'', JStr ''key'') # (''appSecret'', JStr ''secret'') #
          map (\<lambda>f. (fname f, the (fdefault f))) (drop 2 ScreeningRequest)"
        and request' = "[(''appKey'', JStr ''key''), (''appSecret'', JStr ''secret'')]"]
      handler_error_envelope[where env = ?env
        and body = "[(''appKey'', JStr ''key'')]"
        and errs = "[ErrorDetails [JStr ''appSecret''] missing (JObj [(''appKey'', JStr ''key'')])]"]
      handler_error_envelope[where env = ?env
        and body = "[(''appKey'', JStr ''key''), (''perMin'', JFloat NegInf)]"
        and errs = "[ErrorDetails [JStr ''appSecret''] missing
                    (JObj [(''appKey'', JStr ''key''), (''perMin'', JFloat NegInf)]),
                  ErrorDetails [JStr ''perMin''] greater_than_equal (JFloat NegInf)]"]
    by (simp del: encode.simps)
qed

section \<open>Required fields and defaults\<close>

text \<open>
  C8, as stated, fails: the empty string is accepted for \<open>appKey\<close> and \<open>appSecret\<close>
  by both request models, and the validate-credentials call is forwarded with it.
\<close>

theorem empty_credentials_accepted_counterexample:
  "model_validate (example_env (\<lambda>c. Inr \<lparr>status_code = 401, response_text = ''{}'',
                                           decoded = Inr (JObj [])\<rparr>))
       CredentialsRequest [(''appKey'', JStr []), (''appSecret'', JStr [])] =
     Inr [(''appKey'', JStr []), (''appSecret'', JStr [])]
   \<and> model_validate (example_env (\<lambda>c. Inr \<lparr>status_code = 401, response_text = ''{}'',
                                           decoded = Inr (JObj [])\<rparr>))
       ScreeningRequest [(''appKey'', JStr []), (''appSecret'', JStr [])] =
     Inr ((''appKey'', JStr []) # (''appSecret'', JStr []) #
          map (\<lambda>f. (fname f, the (fdefault f))) (drop 2 ScreeningRequest))
   \<and> snd (route_validate_credentials
        (example_env (\<lambda>c. Inr \<lparr>status_code = 401, response_text = ''{}'', decoded = Inr (JObj [])\<rparr>))
        [(''appKey'', JStr []), (''appSecret'', JStr [])]) =
     [POST ''http://kotlin-screener:8080/api/v1/validate-credentials''
        (JObj [(''appKey'', JStr []), (''appSecret'', JStr [])]) 10]"
proof -
  have v: "model_validate env CredentialsRequest [(''appKey'', JStr []), (''appSecret'', JStr [])] =
     Inr [(''appKey'', JStr []), (''appSecret'', JStr [])]" for env
    by (simp add: model_validate_def CredentialsRequest_def validate_field_def)
  show ?thesis
    using v credentials_only_valid[of _ "[]" "[]"]
    by (simp add: route_validate_credentials_valid[OF v] validate_credentials_def
        example_env_def str_attr_def)
qed

text \<open>
  C8, amended. \<open>appKey\<close> and \<open>appSecret\<close> are required: a body in which either is
  absent is rejected by both request models with no downstream call; the answer has
  status 422, or 500 when the body, which the 422 echoes, has a float that is not
  finite. No minimum length is declared: for the credentials model any two strings, the
  empty string included, are accepted.
\<close>

theorem credentials_required_strings:
  "(map_of body ''appKey'' = None \<or> map_of body ''appSecret'' = None \<longrightarrow>
      isl (model_validate env ScreeningRequest body)
      \<and> isl (model_validate env CredentialsRequest body)
      \<and> status (fst (route_screen env body)) = (if encode (JObj body) = None then 500 else 422)
      \<and> snd (route_screen env body) = []
      \<and> status (fst (route_validate_credentials env body))
          = (if encode (JObj body) = None then 500 else 422)
      \<and> snd (route_validate_credentials env body) = [])
   \<and> (map_of body ''appKey'' = Some (JStr k) \<and> map_of body ''appSecret'' = Some (JStr s) \<longrightarrow>
      model_validate env CredentialsRequest body
        = Inr [(''appKey'', JStr k), (''appSecret'', JStr s)])"
proof -
  have acc: "map_of body ''appKey'' = Some (JStr k) \<and> map_of body ''appSecret'' = Some (JStr s) \<longrightarrow>
      model_validate env CredentialsRequest body
        = Inr [(''appKey'', JStr k), (''appSecret'', JStr s)]"
    by (simp add: model_validate_def CredentialsRequest_def validate_field_def)
  have rej: "isl (model_validate env ScreeningRequest body)
      \<and> isl (model_validate env CredentialsRequest body)
      \<and> status (fst (route_screen env body)) = (if encode (JObj body) = None then 500 else 422)
      \<and> snd (route_screen env body) = []
      \<and> status (fst (route_validate_credentials env body))
          = (if encode (JObj body) = None then 500 else 422)
      \<and> snd (route_validate_credentials env body) = []"
    if h: "map_of body ''appKey'' = None \<or> map_of body ''appSecret'' = None"
  proof -
    obtain n where a: "model_validate env ScreeningRequest body
          = Inl (fst (validate_fields env ScreeningRequest body))"
      "ErrorDetails [JStr n] missing (JObj body)
          \<in> set (fst (validate_fields env ScreeningRequest body))"
      using missing_credentials_error[OF h, of ScreeningRequest env]
      by (auto simp: ScreeningRequest_def)
    obtain n' where b: "model_validate env CredentialsRequest body
          = Inl (fst (validate_fields env CredentialsRequest body))"
      "ErrorDetails [JStr n'] missing (JObj body)
          \<in> set (fst (validate_fields env CredentialsRequest body))"
      using missing_credentials_error[OF h, of CredentialsRequest env]
      by (auto simp: CredentialsRequest_def)
    show ?thesis
      using missing_field_status[OF a] missing_field_status[OF b]
      by (simp add: a(1) b(1) route_screen_invalid[OF a(1)]
          route_validate_credentials_invalid[OF b(1)] del: encode.simps)
  qed
  from acc rej show ?thesis by blast
qed

theorem credentials_required_strings_witness:
  "map_of [(''appKey'', JStr ''key'')] ''appSecret'' = None
   \<and> isl (model_validate (example_env (\<lambda>c. Inl (Error ''unused''))) ScreeningRequest
        [(''appKey'', JStr ''key'')])
   \<and> isl (model_validate (example_env (\<lambda>c. Inl (Error ''unused''))) CredentialsRequest
        [(''appKey'', JStr ''key'')])
   \<and> status (fst (route_screen (example_env (\<lambda>c. Inl (Error ''unused'')))
        [(''appKey'', JStr ''key'')])) = 422
   \<and> snd (route_screen (example_env (\<lambda>c. Inl (Error ''unused'')))
        [(''appKey'', JStr ''key'')]) = []
   \<and> status (fst (route_validate_credentials (example_env (\<lambda>c. Inl (Error ''unused'')))
        [(''appKey'', JStr ''key'')])) = 422
   \<and> map_of example_credentials ''appKey'' = Some (JStr ''key'')
   \<and> map_of example_credentials ''appSecret'' = Some (JStr ''secret'')
   \<and> model_validate (example_env (\<lambda>c. Inl (Error ''unused''))) CredentialsRequest
        example_credentials =
        Inr [(''appKey'', JStr ''key''), (''appSecret'', JStr ''secret'')]"
  using credentials_required_strings[where body = "[(''appKey'', JStr ''key'')]"
      and env = "example_env (\<lambda>c. Inl (Error ''unused''))"]
    credentials_required_strings[where body = example_credentials and k = "''key''"
      and s = "''secret''" and env = "example_env (\<lambda>c. Inl (Error ''unused''))"]
  by (simp add: example_credentials_def)

section \<open>The health operation\<close>

text \<open>
  C9. The health route always answers with status 200. The composite status is
  \<open>healthy\<close> exactly when the probe returns a response with status 200, and
  \<open>degraded\<close> otherwise, whatever made the probe fail; the entry of the gateway is
  always \<open>healthy\<close>, the entry of the downstream service \<open>healthy\<close> or \<open>unhealthy\<close>.
  The downstream service is probed once.
\<close>

theorem health_always_200:
  "route_health env =
     (JSONResponse 200
        (JObj [(''status'',
                 JStr (if (\<exists>r. downstream env (GET (KOTLIN_SERVICE_URL env @ ''/health'') 5) = Inr r
                             \<and> status_code r = 200)
                       then ''healthy'' else ''degraded'')),
               (''services'', JObj
                  [(''gateway'', JStr ''healthy''),
                   (''kotlin_screener'',
                     JStr (if (\<exists>r. downstream env (GET (KOTLIN_SERVICE_URL env @ ''/health'') 5) = Inr r
                                 \<and> status_code r = 200)
                           then ''healthy'' else ''unhealthy''))]),
               (''timestamp'', JStr (now env))]),
      [GET (KOTLIN_SERVICE_URL env @ ''/health'') 5])"
  by (auto simp: route_health_def health_check_def respond_def Let_def split: sum.splits)

section \<open>Defaults of the screen request\<close>

text \<open>
  C10. The required fields of the screen request are \<open>appKey\<close> and \<open>appSecret\<close>
  and no other. A body with only these two validates, every other field taking its
  declared default (\<open>ma112Enabled\<close>, \<open>excludeETF\<close> and \<open>excludeETN\<close> true), and the
  model with the defaults is what is posted to the downstream service.
\<close>

theorem only_credentials_required:
  "map fname (filter (\<lambda>f. fdefault f = None) ScreeningRequest) = [''appKey'', ''appSecret'']
   \<and> model_validate env ScreeningRequest [(''appKey'', JStr k), (''appSecret'', JStr s)] =
     Inr [(''appKey'', JStr k), (''appSecret'', JStr s),
          (''isProduction'', JBool False),
          (''ma60Enabled'', JBool False), (''ma60Min'', JInt 95), (''ma60Max'', JInt 105),
          (''ma112Enabled'', JBool True), (''ma112Min'', JInt 95), (''ma112Max'', JInt 105),
          (''ma224Enabled'', JBool False), (''ma224Min'', JInt 95), (''ma224Max'', JInt 105),
          (''bbEnabled'', JBool False), (''bbPeriod'', JInt 20),
          (''bbMultiplier'', JFloat (Finite 2)), (''bbPosition'', JStr ''all''),
          (''bbUpperBreak'', JBool False), (''bbLowerBreak'', JBool False),
          (''volumeEnabled'', JBool False), (''volumeMultiple'', JFloat (Finite (3 / 2))),
          (''priceChangeEnabled'', JBool False),
          (''priceChangeMin'', JFloat (Finite (- 100))), (''priceChangeMax'', JFloat (Finite 100)),
          (''excludeETF'', JBool True), (''excludeETN'', JBool True),
          (''excludeManagement'', JBool False),
          (''marketCapEnabled'', JBool False), (''marketCapMin'', JInt 0),
          (''marketCapMax'', JInt 1000000000000),
          (''perEnabled'', JBool False), (''perMin'', JFloat (Finite 0)),
          (''perMax'', JFloat (Finite 30)),
          (''maAlignment'', JBool False),
          (''targetCodes'', JList [])]
   \<and> snd (route_screen env [(''appKey'', JStr k), (''appSecret'', JStr s)]) =
     [POST (KOTLIN_SERVICE_URL env @ ''/api/v1/screen'')
        (JObj [(''appKey'', JStr k), (''appSecret'', JStr s),
          (''isProduction'', JBool False),
          (''ma60Enabled'', JBool False), (''ma60Min'', JInt 95), (''ma60Max'', JInt 105),
          (''ma112Enabled'', JBool True), (''ma112Min'', JInt 95), (''ma112Max'', JInt 105),
          (''ma224Enabled'', JBool False), (''ma224Min'', JInt 95), (''ma224Max'', JInt 105),
          (''bbEnabled'', JBool False), (''bbPeriod'', JInt 20), (''bbMultiplier'', JFloat 2),
          (''bbPosition'', JStr ''all''),
          (''bbUpperBreak'', JBool False), (''bbLowerBreak'', JBool False),
          (''volumeEnabled'', JBool False), (''volumeMultiple'', JFloat (3 / 2)),
          (''priceChangeEnabled'', JBool False),
          (''priceChangeMin'', JFloat (- 100)), (''priceChangeMax'', JFloat 100),
          (''excludeETF'', JBool True), (''excludeETN'', JBool True),
          (''excludeManagement'', JBool False),
          (''marketCapEnabled'', JBool False), (''marketCapMin'', JInt 0),
          (''marketCapMax'', JInt 1000000000000),
          (''perEnabled'', JBool False), (''perMin'', JFloat 0), (''perMax'', JFloat 30),
          (''maAlignment'', JBool False),
          (''targetCodes'', JList [])]) 300]"
proof -
  have req: "map fname (filter (\<lambda>f. fdefault f = None) ScreeningRequest)
               = [''appKey'', ''appSecret'']"
    by (simp add: ScreeningRequest_def)
  have calls: "snd (route_screen env [(''appKey'', JStr k), (''appSecret'', JStr s)]) =
     [POST (KOTLIN_SERVICE_URL env @ ''/api/v1/screen'')
        (the (encode (JObj ((''appKey'', JStr k) # (''appSecret'', JStr s) #
               map (\<lambda>f. (fname f, the (fdefault f))) (drop 2 ScreeningRequest))))) 300]"
    by (simp add: route_screen_valid[OF credentials_only_valid] screen_stocks_def
        screen_stocks_sent[OF defaults_encode] defaults_encode Let_def split: prod.splits
        del: encode.simps)
  show ?thesis
    using req calls credentials_only_valid[of env k s]
    unfolding defaults_encode unfolding defaults_model by simp
qed

end
